theory Spec2Isabelle
  imports Main
begin

section \<open>Go library functions used by the provider\<close>

text \<open>
  Go strings are byte sequences; \<^typ>\<open>string\<close> (a list of 8-bit characters) is the
  same data. A Go \<open>error\<close> value is used by this program only through its text
  (\<open>err.Error()\<close>, \<open>%s\<close>, \<open>%w\<close>), so it is modelled as \<open>string option\<close>:
  \<open>None\<close> is \<open>nil\<close>, \<open>Some m\<close> an error whose text is \<open>m\<close>.
\<close>

type_synonym error = "string option"

text \<open>\<open>strings.Contains(s, substr)\<close>: \<open>substr\<close> occurs at some offset of \<open>s\<close>.\<close>

fun Contains :: "string \<Rightarrow> string \<Rightarrow> bool" where
  "Contains [] substr = (substr = [])"
| "Contains (x # xs) substr =
     (take (length substr) (x # xs) = substr \<or> Contains xs substr)"

text \<open>
  \<open>strings.Split(s, sep)\<close> for a one-byte separator (both call sites pass one:
  \<open>","\<close> and \<open>"|"\<close>). The library's loop: find the next separator, cut the piece in
  front of it, continue behind it; what is left when no separator remains is the last piece.
\<close>

function Split :: "string \<Rightarrow> char \<Rightarrow> string list" where
  "Split s sep =
     (case dropWhile (\<lambda>b. b \<noteq> sep) s of
        [] \<Rightarrow> [s]
      | _ # rest \<Rightarrow> takeWhile (\<lambda>b. b \<noteq> sep) s # Split rest sep)"
  by pat_completeness auto
termination
proof (relation "measure (\<lambda>(s, sep). length s)")
  show "wf (measure (\<lambda>(s, sep). length s))" by simp
next
  fix s :: string and sep :: char and x rest
  assume "dropWhile (\<lambda>b. b \<noteq> sep) s = x # rest"
  then have "length rest < length (dropWhile (\<lambda>b. b \<noteq> sep) s)" by simp
  also have "\<dots> \<le> length s" by (rule length_dropWhile_le)
  finally show "((rest, sep), (s, sep)) \<in> measure (\<lambda>(s, sep). length s)" by simp
qed

declare Split.simps [simp del]

text \<open>
  \<open>strings.NewReplacer(old1, new1, ...).Replace(s)\<close> when every \<open>old\<close> is a single byte
  (the library's byte-to-string replacer): each byte of \<open>s\<close> that is an \<open>old\<close> is
  replaced by its \<open>new\<close>, the others are copied. The pairs are an association list; the
  first pair for a byte wins.
\<close>

definition Replace :: "(char \<times> string) list \<Rightarrow> string \<Rightarrow> string" where
  "Replace pairs s =
     concat (map (\<lambda>b. case map_of pairs b of None \<Rightarrow> [b] | Some new \<Rightarrow> new) s)"

section \<open>internal/client/client.go: escaping\<close>

definition EscapeDN_pairs :: "(char \<times> string) list" where
  "EscapeDN_pairs =
     [(CHR 0x5C, [CHR 0x5C, CHR 0x5C]),
      (CHR '','', [CHR 0x5C, CHR '','']),
      (CHR ''+'', [CHR 0x5C, CHR ''+'']),
      (CHR 0x22, [CHR 0x5C, CHR 0x22]),
      (CHR ''<'', [CHR 0x5C, CHR ''<'']),
      (CHR ''>'', [CHR 0x5C, CHR ''>'']),
      (CHR '';'', [CHR 0x5C, CHR '';'']),
      (CHR ''='', [CHR 0x5C, CHR ''='']),
      (CHR 0x0A, [CHR 0x5C, CHR ''0'', CHR ''A'']),
      (CHR 0x0D, [CHR 0x5C, CHR ''0'', CHR ''D'']),
      (CHR 0x00, [CHR 0x5C, CHR ''0'', CHR ''0''])]"

definition EscapeDN :: "string \<Rightarrow> string" where
  "EscapeDN v = Replace EscapeDN_pairs v"

definition EscapeFilter_pairs :: "(char \<times> string) list" where
  "EscapeFilter_pairs =
     [(CHR 0x5C, [CHR 0x5C, CHR ''5'', CHR ''c'']),
      (CHR ''*'', [CHR 0x5C, CHR ''2'', CHR ''a'']),
      (CHR ''('', [CHR 0x5C, CHR ''2'', CHR ''8'']),
      (CHR '')'', [CHR 0x5C, CHR ''2'', CHR ''9'']),
      (CHR 0x00, [CHR 0x5C, CHR ''0'', CHR ''0''])]"

definition EscapeFilter :: "string \<Rightarrow> string" where
  "EscapeFilter v = Replace EscapeFilter_pairs v"

text \<open>The bytes each escaper rewrites.\<close>

definition EscapeDN_special :: "char set" where
  "EscapeDN_special =
     {CHR 0x5C, CHR '','', CHR ''+'', CHR 0x22, CHR ''<'', CHR ''>'', CHR '';'', CHR ''='',
      CHR 0x0A, CHR 0x0D, CHR 0x00}"

definition EscapeFilter_special :: "char set" where
  "EscapeFilter_special = {CHR 0x5C, CHR ''*'', CHR ''('', CHR '')'', CHR 0x00}"

section \<open>Go library functions: integers as text\<close>

text \<open>
  Go's \<open>int\<close> and \<open>int64\<close> are both 64-bit signed on the platforms the provider is
  built for. Values are modelled as \<^typ>\<open>int\<close>; where the library checks the 64-bit range
  (\<open>strconv.ParseInt\<close>), the check is written out.
\<close>

text \<open>\<open>fmt.Sprintf("%d", i)\<close>: the decimal digits of the magnitude, behind a minus sign
  when \<open>i\<close> is negative.\<close>

function formatBits :: "nat \<Rightarrow> string" where
  "formatBits u =
     (if u < 10 then [''0123456789'' ! u]
      else formatBits (u div 10) @ [''0123456789'' ! (u mod 10)])"
  by pat_completeness auto
termination
  by (relation "measure (\<lambda>u. u)") auto

declare formatBits.simps [simp del]

definition Sprintf_d :: "int \<Rightarrow> string" where
  "Sprintf_d i = (if i < 0 then CHR ''-'' # formatBits (nat (- i)) else formatBits (nat i))"

datatype NumError = ErrSyntax | ErrRange

definition maxUint64 :: nat where
  "maxUint64 = 18446744073709551615"

text \<open>The value of a decimal digit byte; any other byte is a syntax error in base 10.\<close>

definition digitVal :: "char \<Rightarrow> nat option" where
  "digitVal c =
     (let n = (of_char c :: nat) in if 48 \<le> n \<and> n \<le> 57 then Some (n - 48) else None)"

text \<open>The digit loop of \<open>strconv.ParseUint(s, 10, 64)\<close>, \<open>n\<close> the value read so far.\<close>

fun ParseUint_loop :: "nat \<Rightarrow> string \<Rightarrow> NumError + nat" where
  "ParseUint_loop n [] = Inr n"
| "ParseUint_loop n (c # cs) =
     (case digitVal c of
        None \<Rightarrow> Inl ErrSyntax
      | Some d \<Rightarrow>
          if n * 10 + d > maxUint64 then Inl ErrRange
          else ParseUint_loop (n * 10 + d) cs)"

definition ParseUint :: "string \<Rightarrow> NumError + nat" where
  "ParseUint s = (if s = [] then Inl ErrSyntax else ParseUint_loop 0 s)"

text \<open>\<open>strconv.ParseInt(s, 10, 64)\<close>: an optional sign, then \<open>ParseUint\<close>, then the
  signed 64-bit range.\<close>

definition ParseInt :: "string \<Rightarrow> NumError + int" where
  "ParseInt s =
     (case s of
        [] \<Rightarrow> Inl ErrSyntax
      | c # cs \<Rightarrow>
          let neg = (c = CHR ''-'');
              s1 = (if c = CHR ''+'' \<or> c = CHR ''-'' then cs else s)
          in case ParseUint s1 of
               Inl e \<Rightarrow> Inl e
             | Inr un \<Rightarrow>
                 if \<not> neg \<and> un \<ge> 9223372036854775808 then Inl ErrRange
                 else if neg \<and> un > 9223372036854775808 then Inl ErrRange
                 else Inr (if neg then - int un else int un))"

section \<open>The go-ldap library: requests, entries, the session\<close>

datatype Scope = ScopeBaseObject | ScopeSingleLevel | ScopeWholeSubtree

datatype DerefAliases = NeverDerefAliases | DerefInSearching | DerefFindingBaseObj | DerefAlways

text \<open>The arguments of \<open>ldap.NewSearchRequest\<close>, in its order; the controls are \<open>nil\<close> at
  every call and are left out.\<close>

record SearchRequest =
  SearchRequest_BaseDN :: string
  SearchRequest_Scope :: Scope
  SearchRequest_DerefAliases :: DerefAliases
  SearchRequest_SizeLimit :: int
  SearchRequest_TimeLimit :: int
  SearchRequest_TypesOnly :: bool
  SearchRequest_Filter :: string
  SearchRequest_Attributes :: "string list"

definition NewSearchRequest ::
  "string \<Rightarrow> Scope \<Rightarrow> DerefAliases \<Rightarrow> int \<Rightarrow> int \<Rightarrow> bool \<Rightarrow> string \<Rightarrow> string list \<Rightarrow> SearchRequest" where
  "NewSearchRequest base scope deref sizeLimit timeLimit typesOnly filterStr attrs =
     \<lparr>SearchRequest_BaseDN = base, SearchRequest_Scope = scope,
      SearchRequest_DerefAliases = deref, SearchRequest_SizeLimit = sizeLimit,
      SearchRequest_TimeLimit = timeLimit, SearchRequest_TypesOnly = typesOnly,
      SearchRequest_Filter = filterStr, SearchRequest_Attributes = attrs\<rparr>"

text \<open>An entry of a search result: its DN and its attributes, each a name with its values,
  in the order the server sent them.\<close>

record Entry =
  Entry_DN :: string
  Entry_Attributes :: "(string \<times> string list) list"

text \<open>\<open>Entry.GetAttributeValues\<close>: the values of the first attribute of that exact name,
  none when there is no such attribute. \<open>Entry.GetAttributeValue\<close>: the first of them, the
  empty string when there is none.\<close>

definition GetAttributeValues :: "Entry \<Rightarrow> string \<Rightarrow> string list" where
  "GetAttributeValues e a = (case map_of (Entry_Attributes e) a of None \<Rightarrow> [] | Some vs \<Rightarrow> vs)"

definition GetAttributeValue :: "Entry \<Rightarrow> string \<Rightarrow> string" where
  "GetAttributeValue e a = (case GetAttributeValues e a of [] \<Rightarrow> [] | v # _ \<Rightarrow> v)"

record AddRequest =
  AddRequest_DN :: string
  AddRequest_Attributes :: "(string \<times> string list) list"

definition NewAddRequest :: "string \<Rightarrow> AddRequest" where
  "NewAddRequest dn = \<lparr>AddRequest_DN = dn, AddRequest_Attributes = []\<rparr>"

text \<open>\<open>AddRequest.Attribute(attrType, attrVals)\<close> appends one attribute.\<close>

definition Attribute :: "AddRequest \<Rightarrow> string \<Rightarrow> string list \<Rightarrow> AddRequest" where
  "Attribute req attrType attrVals =
     req\<lparr>AddRequest_Attributes := AddRequest_Attributes req @ [(attrType, attrVals)]\<rparr>"

datatype Operation = AddAttribute | DeleteAttribute | ReplaceAttribute

record Change =
  Change_Operation :: Operation
  Change_Type :: string
  Change_Vals :: "string list"

record ModifyRequest =
  ModifyRequest_DN :: string
  ModifyRequest_Changes :: "Change list"

definition NewModifyRequest :: "string \<Rightarrow> ModifyRequest" where
  "NewModifyRequest dn = \<lparr>ModifyRequest_DN = dn, ModifyRequest_Changes = []\<rparr>"

definition appendChange :: "ModifyRequest \<Rightarrow> Operation \<Rightarrow> string \<Rightarrow> string list \<Rightarrow> ModifyRequest" where
  "appendChange req operation attrType attrVals =
     req\<lparr>ModifyRequest_Changes := ModifyRequest_Changes req @
       [\<lparr>Change_Operation = operation, Change_Type = attrType, Change_Vals = attrVals\<rparr>]\<rparr>"

text \<open>\<open>ModifyRequest.Add\<close>, \<open>.Delete\<close> and \<open>.Replace\<close>.\<close>

definition ModifyRequest_Add :: "ModifyRequest \<Rightarrow> string \<Rightarrow> string list \<Rightarrow> ModifyRequest" where
  "ModifyRequest_Add req attrType attrVals = appendChange req AddAttribute attrType attrVals"

definition ModifyRequest_Delete :: "ModifyRequest \<Rightarrow> string \<Rightarrow> string list \<Rightarrow> ModifyRequest" where
  "ModifyRequest_Delete req attrType attrVals = appendChange req DeleteAttribute attrType attrVals"

definition ModifyRequest_Replace :: "ModifyRequest \<Rightarrow> string \<Rightarrow> string list \<Rightarrow> ModifyRequest" where
  "ModifyRequest_Replace req attrType attrVals = appendChange req ReplaceAttribute attrType attrVals"

record DelRequest =
  DelRequest_DN :: string

definition NewDelRequest :: "string \<Rightarrow> DelRequest" where
  "NewDelRequest dn = \<lparr>DelRequest_DN = dn\<rparr>"

record ModifyDNRequest =
  ModifyDNRequest_DN :: string
  ModifyDNRequest_NewRDN :: string
  ModifyDNRequest_DeleteOldRDN :: bool
  ModifyDNRequest_NewSuperior :: string

definition NewModifyDNRequest :: "string \<Rightarrow> string \<Rightarrow> bool \<Rightarrow> string \<Rightarrow> ModifyDNRequest" where
  "NewModifyDNRequest dn rdn delOld newSup =
     \<lparr>ModifyDNRequest_DN = dn, ModifyDNRequest_NewRDN = rdn,
      ModifyDNRequest_DeleteOldRDN = delOld, ModifyDNRequest_NewSuperior = newSup\<rparr>"

text \<open>
  The session (\<open>*ldap.Conn\<close>) and the directory server behind it are outside the
  repository. A session is the five calls the client makes on it; each takes the request and
  the state \<open>'s\<close> of the server and gives the library's answer and the server's new state.
  An answer is an \<^typ>\<open>error\<close>, for a search the error text or the entries found.
\<close>

record 's Conn =
  Conn_Search :: "SearchRequest \<Rightarrow> 's \<Rightarrow> (string + Entry list) \<times> 's"
  Conn_Add :: "AddRequest \<Rightarrow> 's \<Rightarrow> error \<times> 's"
  Conn_Modify :: "ModifyRequest \<Rightarrow> 's \<Rightarrow> error \<times> 's"
  Conn_Del :: "DelRequest \<Rightarrow> 's \<Rightarrow> error \<times> 's"
  Conn_ModifyDN :: "ModifyDNRequest \<Rightarrow> 's \<Rightarrow> error \<times> 's"

text \<open>
  What a Go call does: it returns, or it panics. Only a call made through a pointer that
  may be \<open>nil\<close> without a check in front of it can panic here.
\<close>

datatype 'a outcome = Returns 'a | Panics

text \<open>
  \<open>l.ModifyDN(req)\<close> on a \<open>*ldap.Conn\<close> \<open>l\<close> that may be \<open>nil\<close>: the method reads the
  fields of \<open>l\<close> before anything is sent, so on \<open>nil\<close> it panics with a nil pointer
  dereference and the server sees nothing.
\<close>

definition ModifyDN :: "'s Conn option \<Rightarrow> ModifyDNRequest \<Rightarrow> 's \<Rightarrow> error outcome \<times> 's" where
  "ModifyDN l req s =
     (case l of
        None \<Rightarrow> (Panics, s)
      | Some k \<Rightarrow> (case Conn_ModifyDN k req s of (err, s') \<Rightarrow> (Returns err, s')))"

section \<open>internal/client/client.go: the transport\<close>

text \<open>The \<open>conn\<close> field is a pointer: \<open>None\<close> is \<open>nil\<close>, no session established.\<close>

record 's Client =
  conn :: "'s Conn option"
  baseDN :: string
  username :: string
  password :: string
  server :: string
  port :: int
  useTLS :: bool

definition Client_Search :: "'s Client \<Rightarrow> SearchRequest \<Rightarrow> 's \<Rightarrow> (string + Entry list) \<times> 's" where
  "Client_Search c searchRequest s =
     (case conn c of
        None \<Rightarrow> (Inl ''LDAP connection is not established'', s)
      | Some k \<Rightarrow>
          (case Conn_Search k searchRequest s of
             (Inl err, s') \<Rightarrow> (Inl (''LDAP search failed: '' @ err), s')
           | (Inr result, s') \<Rightarrow> (Inr result, s')))"

definition Client_Add :: "'s Client \<Rightarrow> AddRequest \<Rightarrow> 's \<Rightarrow> error \<times> 's" where
  "Client_Add c addRequest s =
     (case conn c of
        None \<Rightarrow> (Some ''LDAP connection is not established'', s)
      | Some k \<Rightarrow>
          (case Conn_Add k addRequest s of
             (Some err, s') \<Rightarrow> (Some (''LDAP add failed: '' @ err), s')
           | (None, s') \<Rightarrow> (None, s')))"

definition Client_Modify :: "'s Client \<Rightarrow> ModifyRequest \<Rightarrow> 's \<Rightarrow> error \<times> 's" where
  "Client_Modify c modifyRequest s =
     (case conn c of
        None \<Rightarrow> (Some ''LDAP connection is not established'', s)
      | Some k \<Rightarrow>
          (case Conn_Modify k modifyRequest s of
             (Some err, s') \<Rightarrow> (Some (''LDAP modify failed: '' @ err), s')
           | (None, s') \<Rightarrow> (None, s')))"

definition Client_Delete :: "'s Client \<Rightarrow> DelRequest \<Rightarrow> 's \<Rightarrow> error \<times> 's" where
  "Client_Delete c delRequest s =
     (case conn c of
        None \<Rightarrow> (Some ''LDAP connection is not established'', s)
      | Some k \<Rightarrow>
          (case Conn_Del k delRequest s of
             (Some err, s') \<Rightarrow> (Some (''LDAP delete failed: '' @ err), s')
           | (None, s') \<Rightarrow> (None, s')))"

section \<open>internal/client: groups\<close>

record Group =
  Group_DN :: string
  Group_CN :: string
  Group_Name :: string
  Group_SamAccountName :: string
  Group_Description :: string
  Group_GroupType :: string
  Group_ManagedBy :: string
  Group_Members :: "string list"
  Group_MemberOf :: "string list"
  Group_ObjectGUID :: string
  Group_ObjectSid :: string

text \<open>The attribute list that \<open>GetGroup\<close>, \<open>GetGroupByCN\<close> and \<open>ListGroups\<close> each ask
  for, and the \<open>Group\<close> literal each of them builds from an entry.\<close>

definition groupAttributes :: "string list" where
  "groupAttributes =
     [''cn'', ''name'', ''sAMAccountName'', ''description'', ''groupType'', ''managedBy'',
      ''member'', ''memberOf'', ''objectGUID'', ''objectSid'']"

definition entryGroup :: "Entry \<Rightarrow> Group" where
  "entryGroup entry =
     \<lparr>Group_DN = Entry_DN entry,
      Group_CN = GetAttributeValue entry ''cn'',
      Group_Name = GetAttributeValue entry ''name'',
      Group_SamAccountName = GetAttributeValue entry ''sAMAccountName'',
      Group_Description = GetAttributeValue entry ''description'',
      Group_GroupType = GetAttributeValue entry ''groupType'',
      Group_ManagedBy = GetAttributeValue entry ''managedBy'',
      Group_Members = GetAttributeValues entry ''member'',
      Group_MemberOf = GetAttributeValues entry ''memberOf'',
      Group_ObjectGUID = GetAttributeValue entry ''objectGUID'',
      Group_ObjectSid = GetAttributeValue entry ''objectSid''\<rparr>"

definition GetGroup :: "'s Client \<Rightarrow> string \<Rightarrow> 's \<Rightarrow> (string + Group) \<times> 's" where
  "GetGroup c dn s =
     (let searchRequest =
            NewSearchRequest dn ScopeBaseObject NeverDerefAliases 0 0 False
              ''(objectClass=group)'' groupAttributes
      in case Client_Search c searchRequest s of
           (Inl err, s') \<Rightarrow> (Inl (''failed to search for group '' @ dn @ '': '' @ err), s')
         | (Inr result, s') \<Rightarrow>
             (case result of
                [] \<Rightarrow> (Inl (''group not found: '' @ dn), s')
              | entry # _ \<Rightarrow> (Inr (entryGroup entry), s')))"

definition GetGroupByCN :: "'s Client \<Rightarrow> string \<Rightarrow> 's \<Rightarrow> (string + Group) \<times> 's" where
  "GetGroupByCN c cn s =
     (let filterStr = ''(&(objectClass=group)(cn='' @ EscapeFilter cn @ ''))'';
          searchRequest =
            NewSearchRequest (baseDN c) ScopeWholeSubtree NeverDerefAliases 0 0 False
              filterStr groupAttributes
      in case Client_Search c searchRequest s of
           (Inl err, s') \<Rightarrow>
             (Inl (''failed to search for group with CN '' @ cn @ '': '' @ err), s')
         | (Inr result, s') \<Rightarrow>
             (case result of
                [] \<Rightarrow> (Inl (''group not found with CN: '' @ cn), s')
              | entry # _ \<Rightarrow> (Inr (entryGroup entry), s')))"

definition CreateGroup ::
  "'s Client \<Rightarrow> string \<Rightarrow> string \<Rightarrow> string \<Rightarrow> int \<Rightarrow> 's \<Rightarrow> (string + Group) \<times> 's" where
  "CreateGroup c ou cn description groupType s =
     (let dn = ''CN='' @ EscapeDN cn @ '','' @ ou;
          addRequest = NewAddRequest dn;
          addRequest = Attribute addRequest ''objectClass'' [''top'', ''group''];
          addRequest = Attribute addRequest ''cn'' [cn];
          addRequest = Attribute addRequest ''name'' [cn];
          addRequest = Attribute addRequest ''sAMAccountName'' [cn];
          addRequest =
            (if description \<noteq> [] then Attribute addRequest ''description'' [description]
             else addRequest);
          addRequest = Attribute addRequest ''groupType'' [Sprintf_d groupType]
      in case Client_Add c addRequest s of
           (Some err, s') \<Rightarrow> (Inl (''failed to create group '' @ dn @ '': '' @ err), s')
         | (None, s') \<Rightarrow> GetGroup c dn s')"

text \<open>
  \<open>UpdateGroup\<close> ranges over a Go map, whose iteration order is not fixed; \<open>updates\<close> is
  the map's pairs in the order the run visits them.
\<close>

definition UpdateGroup :: "'s Client \<Rightarrow> string \<Rightarrow> (string \<times> string list) list \<Rightarrow> 's \<Rightarrow> error \<times> 's" where
  "UpdateGroup c dn updates s =
     (let modifyRequest =
            fold (\<lambda>(attr, values) req.
                    if length values = 0 then ModifyRequest_Delete req attr []
                    else ModifyRequest_Replace req attr values)
                 updates (NewModifyRequest dn)
      in case Client_Modify c modifyRequest s of
           (Some err, s') \<Rightarrow> (Some (''failed to update group '' @ dn @ '': '' @ err), s')
         | (None, s') \<Rightarrow> (None, s'))"

definition DeleteGroup :: "'s Client \<Rightarrow> string \<Rightarrow> 's \<Rightarrow> error \<times> 's" where
  "DeleteGroup c dn s =
     (let delRequest = NewDelRequest dn
      in case Client_Delete c delRequest s of
           (Some err, s') \<Rightarrow> (Some (''failed to delete group '' @ dn @ '': '' @ err), s')
         | (None, s') \<Rightarrow> (None, s'))"

definition AddMemberToGroup :: "'s Client \<Rightarrow> string \<Rightarrow> string \<Rightarrow> 's \<Rightarrow> error \<times> 's" where
  "AddMemberToGroup c groupDN memberDN s =
     (let modifyRequest = ModifyRequest_Add (NewModifyRequest groupDN) ''member'' [memberDN]
      in case Client_Modify c modifyRequest s of
           (Some err, s') \<Rightarrow>
             (Some (''failed to add member '' @ memberDN @ '' to group '' @ groupDN @ '': '' @ err), s')
         | (None, s') \<Rightarrow> (None, s'))"

definition RemoveMemberFromGroup :: "'s Client \<Rightarrow> string \<Rightarrow> string \<Rightarrow> 's \<Rightarrow> error \<times> 's" where
  "RemoveMemberFromGroup c groupDN memberDN s =
     (let modifyRequest = ModifyRequest_Delete (NewModifyRequest groupDN) ''member'' [memberDN]
      in case Client_Modify c modifyRequest s of
           (Some err, s') \<Rightarrow>
             (Some (''failed to remove member '' @ memberDN @ '' from group '' @ groupDN @ '': '' @ err), s')
         | (None, s') \<Rightarrow> (None, s'))"

definition ListGroups :: "'s Client \<Rightarrow> string \<Rightarrow> 's \<Rightarrow> (string + Group list) \<times> 's" where
  "ListGroups c filterStr s =
     (let filterStr = (if filterStr = [] then ''(objectClass=group)'' else filterStr);
          searchRequest =
            NewSearchRequest (baseDN c) ScopeWholeSubtree NeverDerefAliases 0 0 False
              filterStr groupAttributes
      in case Client_Search c searchRequest s of
           (Inl err, s') \<Rightarrow> (Inl (''failed to list groups: '' @ err), s')
         | (Inr result, s') \<Rightarrow> (Inr (map entryGroup result), s'))"

text \<open>
  \<open>MoveGroup\<close> calls the session's \<open>ModifyDN\<close> directly, not through a method of the
  client: nothing checks \<open>c.conn\<close> on the way.
\<close>

definition MoveGroup :: "'s Client \<Rightarrow> string \<Rightarrow> string \<Rightarrow> 's \<Rightarrow> error outcome \<times> 's" where
  "MoveGroup c currentDN newParentDN s =
     (let parts = Split currentDN (CHR '','')
      in if length parts = 0 then (Returns (Some (''invalid DN format: '' @ currentDN)), s)
         else
           let cn = hd parts;
               newDN = cn @ '','' @ newParentDN;
               modifyDNRequest = NewModifyDNRequest currentDN cn True newParentDN
           in case ModifyDN (conn c) modifyDNRequest s of
                (Panics, s') \<Rightarrow> (Panics, s')
              | (Returns (Some err), s') \<Rightarrow>
                  (Returns (Some (''failed to move group from '' @ currentDN @ '' to '' @ newDN
                                   @ '': '' @ err)), s')
              | (Returns None, s') \<Rightarrow> (Returns None, s'))"

section \<open>The plugin framework: attribute values, diagnostics, responses\<close>

text \<open>
  A framework value (\<open>types.String\<close>, \<open>types.Int64\<close>, \<open>types.Bool\<close>) is null, unknown
  or known; the zero value of the Go type is null. \<open>ValueString\<close>, \<open>ValueInt64\<close> and
  \<open>ValueBool\<close> give the known value, and \<open>""\<close>, \<open>0\<close>, \<open>false\<close> otherwise.
\<close>

datatype 'a attr = Null | Unknown | Value 'a

definition IsNull :: "'a attr \<Rightarrow> bool" where
  "IsNull a = (case a of Null \<Rightarrow> True | _ \<Rightarrow> False)"

definition IsUnknown :: "'a attr \<Rightarrow> bool" where
  "IsUnknown a = (case a of Unknown \<Rightarrow> True | _ \<Rightarrow> False)"

definition ValueString :: "string attr \<Rightarrow> string" where
  "ValueString a = (case a of Value v \<Rightarrow> v | _ \<Rightarrow> [])"

definition ValueInt64 :: "int attr \<Rightarrow> int" where
  "ValueInt64 a = (case a of Value v \<Rightarrow> v | _ \<Rightarrow> 0)"

definition ValueBool :: "bool attr \<Rightarrow> bool" where
  "ValueBool a = (case a of Value v \<Rightarrow> v | _ \<Rightarrow> False)"

text \<open>
  The provider only ever adds error diagnostics: a diagnostic is its summary and its detail.
  \<open>AddError\<close> appends one unless the same diagnostic is already there.
\<close>

type_synonym Diagnostics = "(string \<times> string) list"

definition AddError :: "Diagnostics \<Rightarrow> string \<Rightarrow> string \<Rightarrow> Diagnostics" where
  "AddError diags summary detail =
     (if (summary, detail) \<in> set diags then diags else diags @ [(summary, detail)])"

definition HasError :: "Diagnostics \<Rightarrow> bool" where
  "HasError diags = (diags \<noteq> [])"

text \<open>
  The response of a resource or data-source operation: the diagnostics and the state, a
  model of the resource (\<open>None\<close>: no state set, or the resource removed from it). Reading
  the plan, the configuration or the prior state into the model is the framework's work;
  the model read is an argument of the operation.
\<close>

record 'm Response =
  Response_Diagnostics :: Diagnostics
  Response_State :: "'m option"

section \<open>internal/provider: the group resource\<close>

record GroupResourceModel =
  GroupResourceModel_ID :: "string attr"
  GroupResourceModel_DN :: "string attr"
  GroupResourceModel_CN :: "string attr"
  GroupResourceModel_Name :: "string attr"
  GroupResourceModel_SamAccountName :: "string attr"
  GroupResourceModel_Description :: "string attr"
  GroupResourceModel_GroupType :: "int attr"
  GroupResourceModel_ManagedBy :: "string attr"
  GroupResourceModel_OU :: "string attr"
  GroupResourceModel_ObjectGUID :: "string attr"
  GroupResourceModel_ObjectSid :: "string attr"

text \<open>
  The block that \<open>Create\<close>, \<open>Read\<close> and \<open>Update\<close> each end with: the group read from
  the directory is copied into the model; the group type only when the directory's text is
  not empty and \<open>strconv.ParseInt\<close> accepts it.
\<close>

definition mapGroup :: "GroupResourceModel \<Rightarrow> Group \<Rightarrow> GroupResourceModel" where
  "mapGroup data grp =
     (let data = data\<lparr>GroupResourceModel_ID := Value (Group_DN grp)\<rparr>;
          data = data\<lparr>GroupResourceModel_DN := Value (Group_DN grp)\<rparr>;
          data = data\<lparr>GroupResourceModel_CN := Value (Group_CN grp)\<rparr>;
          data = data\<lparr>GroupResourceModel_Name := Value (Group_Name grp)\<rparr>;
          data = data\<lparr>GroupResourceModel_SamAccountName := Value (Group_SamAccountName grp)\<rparr>;
          data = data\<lparr>GroupResourceModel_Description := Value (Group_Description grp)\<rparr>;
          data =
            (if Group_GroupType grp \<noteq> [] then
               (case ParseInt (Group_GroupType grp) of
                  Inr groupTypeInt \<Rightarrow> data\<lparr>GroupResourceModel_GroupType := Value groupTypeInt\<rparr>
                | Inl err \<Rightarrow> data)
             else data);
          data = data\<lparr>GroupResourceModel_ManagedBy := Value (Group_ManagedBy grp)\<rparr>;
          data = data\<lparr>GroupResourceModel_ObjectGUID := Value (Group_ObjectGUID grp)\<rparr>;
          data = data\<lparr>GroupResourceModel_ObjectSid := Value (Group_ObjectSid grp)\<rparr>
      in data)"

definition GroupResource_Create ::
  "'s Client \<Rightarrow> GroupResourceModel \<Rightarrow> GroupResourceModel Response \<Rightarrow> 's
     \<Rightarrow> GroupResourceModel Response \<times> 's" where
  "GroupResource_Create client data resp s =
     (if HasError (Response_Diagnostics resp) then (resp, s)
      else
        let groupType =
              (if \<not> IsNull (GroupResourceModel_GroupType data)
                  \<and> \<not> IsUnknown (GroupResourceModel_GroupType data)
               then ValueInt64 (GroupResourceModel_GroupType data)
               else - 2147483646)
        in case CreateGroup client
                  (ValueString (GroupResourceModel_OU data))
                  (ValueString (GroupResourceModel_CN data))
                  (ValueString (GroupResourceModel_Description data))
                  groupType s of
             (Inl err, s1) \<Rightarrow>
               (resp\<lparr>Response_Diagnostics :=
                   AddError (Response_Diagnostics resp) ''Client Error''
                     (''Unable to create group, got error: '' @ err)\<rparr>, s1)
           | (Inr grp, s1) \<Rightarrow>
               if \<not> IsNull (GroupResourceModel_ManagedBy data)
                  \<and> \<not> IsUnknown (GroupResourceModel_ManagedBy data)
               then
                 (case UpdateGroup client (Group_DN grp)
                         [(''managedBy'', [ValueString (GroupResourceModel_ManagedBy data)])] s1 of
                    (Some err, s2) \<Rightarrow>
                      (resp\<lparr>Response_Diagnostics :=
                          AddError (Response_Diagnostics resp) ''Client Error''
                            (''Unable to update group managedBy, got error: '' @ err)\<rparr>, s2)
                  | (None, s2) \<Rightarrow>
                      (case GetGroup client (Group_DN grp) s2 of
                         (Inl err, s3) \<Rightarrow>
                           (resp\<lparr>Response_Diagnostics :=
                               AddError (Response_Diagnostics resp) ''Client Error''
                                 (''Unable to read group after update, got error: '' @ err)\<rparr>, s3)
                       | (Inr grp', s3) \<Rightarrow>
                           (resp\<lparr>Response_State := Some (mapGroup data grp')\<rparr>, s3)))
               else (resp\<lparr>Response_State := Some (mapGroup data grp)\<rparr>, s1))"

definition GroupResource_Read ::
  "'s Client \<Rightarrow> GroupResourceModel \<Rightarrow> GroupResourceModel Response \<Rightarrow> 's
     \<Rightarrow> GroupResourceModel Response \<times> 's" where
  "GroupResource_Read client data resp s =
     (if HasError (Response_Diagnostics resp) then (resp, s)
      else
        case GetGroup client (ValueString (GroupResourceModel_DN data)) s of
          (Inl err, s1) \<Rightarrow>
            if Contains err ''not found'' then (resp\<lparr>Response_State := None\<rparr>, s1)
            else
              (resp\<lparr>Response_Diagnostics :=
                  AddError (Response_Diagnostics resp) ''Client Error''
                    (''Unable to read group, got error: '' @ err)\<rparr>, s1)
        | (Inr grp, s1) \<Rightarrow> (resp\<lparr>Response_State := Some (mapGroup data grp)\<rparr>, s1))"

definition GroupResource_Delete ::
  "'s Client \<Rightarrow> GroupResourceModel \<Rightarrow> GroupResourceModel Response \<Rightarrow> 's
     \<Rightarrow> GroupResourceModel Response \<times> 's" where
  "GroupResource_Delete client data resp s =
     (if HasError (Response_Diagnostics resp) then (resp, s)
      else
        case DeleteGroup client (ValueString (GroupResourceModel_DN data)) s of
          (Some err, s1) \<Rightarrow>
            if \<not> Contains err ''not found'' then
              (resp\<lparr>Response_Diagnostics :=
                  AddError (Response_Diagnostics resp) ''Client Error''
                    (''Unable to delete group, got error: '' @ err)\<rparr>, s1)
            else (resp, s1)
        | (None, s1) \<Rightarrow> (resp, s1))"

section \<open>internal/provider: the group-membership resource\<close>

record GroupMembershipResourceModel =
  GroupMembershipResourceModel_ID :: "string attr"
  GroupMembershipResourceModel_GroupDN :: "string attr"
  GroupMembershipResourceModel_MemberDN :: "string attr"

definition GroupMembershipResource_Delete ::
  "'s Client \<Rightarrow> GroupMembershipResourceModel \<Rightarrow> GroupMembershipResourceModel Response \<Rightarrow> 's
     \<Rightarrow> GroupMembershipResourceModel Response \<times> 's" where
  "GroupMembershipResource_Delete client data resp s =
     (if HasError (Response_Diagnostics resp) then (resp, s)
      else
        let groupDN = ValueString (GroupMembershipResourceModel_GroupDN data);
            memberDN = ValueString (GroupMembershipResourceModel_MemberDN data)
        in case RemoveMemberFromGroup client groupDN memberDN s of
             (Some err, s1) \<Rightarrow>
               if Contains err ''not found'' \<or> Contains err ''does not exist''
                  \<or> Contains err ''no such object''
               then (resp, s1)
               else
                 (resp\<lparr>Response_Diagnostics :=
                     AddError (Response_Diagnostics resp) ''Client Error''
                       (''Unable to remove member from group, got error: '' @ err)\<rparr>, s1)
           | (None, s1) \<Rightarrow> (resp, s1))"

text \<open>
  \<open>ImportState\<close> writes single attributes into the state, so its response keeps the state
  as a map from the attribute's path to the value set. \<open>Quote\<close> is the library's rendering
  of \<open>%q\<close> (\<open>strconv.Quote\<close>), used in the error's detail only.
\<close>

record ImportStateResponse =
  ImportStateResponse_Diagnostics :: Diagnostics
  ImportStateResponse_State :: "string \<rightharpoonup> string"

definition SetAttribute :: "ImportStateResponse \<Rightarrow> string \<Rightarrow> string \<Rightarrow> ImportStateResponse" where
  "SetAttribute resp path v =
     resp\<lparr>ImportStateResponse_State := (ImportStateResponse_State resp)(path \<mapsto> v)\<rparr>"

definition GroupMembershipResource_ImportState ::
  "(string \<Rightarrow> string) \<Rightarrow> string \<Rightarrow> ImportStateResponse \<Rightarrow> ImportStateResponse" where
  "GroupMembershipResource_ImportState Quote reqID resp =
     (let parts = Split reqID (CHR ''|'')
      in if length parts \<noteq> 2 then
           resp\<lparr>ImportStateResponse_Diagnostics :=
             AddError (ImportStateResponse_Diagnostics resp) ''Unexpected Import Identifier''
               (''Expected import identifier with format: groupDN|memberDN. Got: ''
                 @ Quote reqID)\<rparr>
         else
           let groupDN = parts ! 0;
               memberDN = parts ! 1;
               resp = SetAttribute resp ''id'' reqID;
               resp = SetAttribute resp ''group_dn'' groupDN;
               resp = SetAttribute resp ''member_dn'' memberDN
           in resp)"

section \<open>internal/provider: configuring the provider\<close>

record ADGroupsProviderModel =
  ADGroupsProviderModel_Server :: "string attr"
  ADGroupsProviderModel_Port :: "int attr"
  ADGroupsProviderModel_BaseDN :: "string attr"
  ADGroupsProviderModel_Username :: "string attr"
  ADGroupsProviderModel_Password :: "string attr"
  ADGroupsProviderModel_UseTLS :: "bool attr"
  ADGroupsProviderModel_Insecure :: "bool attr"

record ClientConfig =
  ClientConfig_Server :: string
  ClientConfig_Port :: int
  ClientConfig_BaseDN :: string
  ClientConfig_Username :: string
  ClientConfig_Password :: string
  ClientConfig_UseTLS :: bool
  ClientConfig_Insecure :: bool

record 'c ConfigureResponse =
  ConfigureResponse_Diagnostics :: Diagnostics
  ConfigureResponse_DataSourceData :: "'c option"
  ConfigureResponse_ResourceData :: "'c option"

text \<open>
  The environment is \<open>Getenv\<close>, from a variable's name to its value, \<open>""\<close> when it is not
  set. The port block of \<open>Configure\<close> is a definition of its own; \<open>Configure\<close> uses it in
  its place.
\<close>

definition Configure_port :: "(string \<Rightarrow> string) \<Rightarrow> ADGroupsProviderModel \<Rightarrow> int" where
  "Configure_port Getenv data =
     (let port = ValueInt64 (ADGroupsProviderModel_Port data)
      in if port = 0 then
           (if Getenv ''AD_PORT'' \<noteq> [] then 389
            else if ValueBool (ADGroupsProviderModel_UseTLS data) \<or> Getenv ''AD_USE_TLS'' = ''true''
                 then 636
                 else 389)
         else port)"

text \<open>\<open>NewClient\<close> dials the server and binds; it is an argument, from the configuration
  to the error's text or the client.\<close>

definition Configure ::
  "(string \<Rightarrow> string) \<Rightarrow> (ClientConfig \<Rightarrow> string + 'c) \<Rightarrow> ADGroupsProviderModel
     \<Rightarrow> 'c ConfigureResponse \<Rightarrow> 'c ConfigureResponse" where
  "Configure Getenv NewClient data resp =
     (if HasError (ConfigureResponse_Diagnostics resp) then resp
      else
        let server = ValueString (ADGroupsProviderModel_Server data);
            server = (if server = [] then Getenv ''AD_SERVER'' else server)
        in if server = [] then
             resp\<lparr>ConfigureResponse_Diagnostics :=
               AddError (ConfigureResponse_Diagnostics resp) ''Missing AD Server Configuration''
                 (''The provider cannot create the AD client as there is a missing or empty value for the AD server. ''
                  @ ''Set the server value in the configuration or use the AD_SERVER environment variable. ''
                  @ ''If either is already set, ensure the value is not empty.'')\<rparr>
           else
        let port = Configure_port Getenv data;
            baseDN = ValueString (ADGroupsProviderModel_BaseDN data);
            baseDN = (if baseDN = [] then Getenv ''AD_BASE_DN'' else baseDN)
        in if baseDN = [] then
             resp\<lparr>ConfigureResponse_Diagnostics :=
               AddError (ConfigureResponse_Diagnostics resp) ''Missing AD Base DN Configuration''
                 (''The provider cannot create the AD client as there is a missing or empty value for the base DN. ''
                  @ ''Set the base_dn value in the configuration or use the AD_BASE_DN environment variable. ''
                  @ ''If either is already set, ensure the value is not empty.'')\<rparr>
           else
        let username = ValueString (ADGroupsProviderModel_Username data);
            username = (if username = [] then Getenv ''AD_USERNAME'' else username)
        in if username = [] then
             resp\<lparr>ConfigureResponse_Diagnostics :=
               AddError (ConfigureResponse_Diagnostics resp) ''Missing AD Username Configuration''
                 (''The provider cannot create the AD client as there is a missing or empty value for the username. ''
                  @ ''Set the username value in the configuration or use the AD_USERNAME environment variable. ''
                  @ ''If either is already set, ensure the value is not empty.'')\<rparr>
           else
        let password = ValueString (ADGroupsProviderModel_Password data);
            password = (if password = [] then Getenv ''AD_PASSWORD'' else password)
        in if password = [] then
             resp\<lparr>ConfigureResponse_Diagnostics :=
               AddError (ConfigureResponse_Diagnostics resp) ''Missing AD Password Configuration''
                 (''The provider cannot create the AD client as there is a missing or empty value for the password. ''
                  @ ''Set the password value in the configuration or use the AD_PASSWORD environment variable. ''
                  @ ''If either is already set, ensure the value is not empty.'')\<rparr>
           else
        let useTLS = ValueBool (ADGroupsProviderModel_UseTLS data);
            useTLS = (if Getenv ''AD_USE_TLS'' = ''true'' then True else useTLS);
            insecure = ValueBool (ADGroupsProviderModel_Insecure data);
            insecure = (if Getenv ''AD_INSECURE'' = ''true'' then True else insecure);
            config =
              \<lparr>ClientConfig_Server = server, ClientConfig_Port = port,
               ClientConfig_BaseDN = baseDN, ClientConfig_Username = username,
               ClientConfig_Password = password, ClientConfig_UseTLS = useTLS,
               ClientConfig_Insecure = insecure\<rparr>
        in case NewClient config of
             Inl err \<Rightarrow>
               resp\<lparr>ConfigureResponse_Diagnostics :=
                 AddError (ConfigureResponse_Diagnostics resp) ''Unable to Create AD Client''
                   (''An unexpected error occurred when creating the AD client. ''
                    @ ''If the error is not clear, please contact the provider developers.''
                    @ [CHR 0x5C, CHR ''n'', CHR 0x5C, CHR ''n'']
                    @ ''AD Client Error: '' @ err)\<rparr>
           | Inr adClient \<Rightarrow>
               resp\<lparr>ConfigureResponse_DataSourceData := Some adClient,
                    ConfigureResponse_ResourceData := Some adClient\<rparr>)"

section \<open>internal/provider/data_source_groups.go: the groups listing\<close>

record GroupsDataSourceGroupModel =
  GroupsDataSourceGroupModel_DN :: "string attr"
  GroupsDataSourceGroupModel_CN :: "string attr"
  GroupsDataSourceGroupModel_Name :: "string attr"
  GroupsDataSourceGroupModel_SamAccountName :: "string attr"
  GroupsDataSourceGroupModel_Description :: "string attr"
  GroupsDataSourceGroupModel_GroupType :: "int attr"
  GroupsDataSourceGroupModel_ManagedBy :: "string attr"
  GroupsDataSourceGroupModel_ObjectGUID :: "string attr"
  GroupsDataSourceGroupModel_ObjectSid :: "string attr"

record GroupsDataSourceModel =
  GroupsDataSourceModel_ID :: "string attr"
  GroupsDataSourceModel_Filter :: "string attr"
  GroupsDataSourceModel_Groups :: "GroupsDataSourceGroupModel list"

text \<open>
  \<open>fmt.Sscanf(str, "%d", new(int64))\<close> gives the number of items it has scanned and an
  error; the integer it has read goes into the fresh \<open>int64\<close>, which nothing reads
  afterwards. The scanner is the library's and is an argument here: \<open>Sscanf_d str\<close> is the
  pair of the count and the error.

  The body of the loop of \<open>Read\<close>: the model of one group.
\<close>

definition groupModel :: "(string \<Rightarrow> int \<times> error) \<Rightarrow> Group \<Rightarrow> GroupsDataSourceGroupModel" where
  "groupModel Sscanf_d grp =
     (let m =
            \<lparr>GroupsDataSourceGroupModel_DN = Value (Group_DN grp),
             GroupsDataSourceGroupModel_CN = Value (Group_CN grp),
             GroupsDataSourceGroupModel_Name = Value (Group_Name grp),
             GroupsDataSourceGroupModel_SamAccountName = Value (Group_SamAccountName grp),
             GroupsDataSourceGroupModel_Description = Value (Group_Description grp),
             GroupsDataSourceGroupModel_GroupType = Null,
             GroupsDataSourceGroupModel_ManagedBy = Value (Group_ManagedBy grp),
             GroupsDataSourceGroupModel_ObjectGUID = Value (Group_ObjectGUID grp),
             GroupsDataSourceGroupModel_ObjectSid = Value (Group_ObjectSid grp)\<rparr>
      in if Group_GroupType grp \<noteq> [] then
           (case Sscanf_d (Group_GroupType grp) of
              (groupTypeInt, parseErr) \<Rightarrow>
                if parseErr = None \<and> groupTypeInt = 1
                then m\<lparr>GroupsDataSourceGroupModel_GroupType := Value groupTypeInt\<rparr>
                else m)
         else m)"

definition GroupsDataSource_Read ::
  "(string \<Rightarrow> int \<times> error) \<Rightarrow> 's Client \<Rightarrow> GroupsDataSourceModel
     \<Rightarrow> GroupsDataSourceModel Response \<Rightarrow> 's \<Rightarrow> GroupsDataSourceModel Response \<times> 's" where
  "GroupsDataSource_Read Sscanf_d client data resp s =
     (if HasError (Response_Diagnostics resp) then (resp, s)
      else
        let filterStr =
              (if \<not> IsNull (GroupsDataSourceModel_Filter data)
                  \<and> \<not> IsUnknown (GroupsDataSourceModel_Filter data)
               then ValueString (GroupsDataSourceModel_Filter data)
               else ''(objectClass=group)'')
        in case ListGroups client filterStr s of
             (Inl err, s1) \<Rightarrow>
               (resp\<lparr>Response_Diagnostics :=
                   AddError (Response_Diagnostics resp) ''Client Error''
                     (''Unable to list groups, got error: '' @ err)\<rparr>, s1)
           | (Inr groups, s1) \<Rightarrow>
               (let data = data\<lparr>GroupsDataSourceModel_ID := Value ''groups''\<rparr>;
                    data = data\<lparr>GroupsDataSourceModel_Filter := Value filterStr\<rparr>;
                    groupModels = map (groupModel Sscanf_d) groups;
                    data = data\<lparr>GroupsDataSourceModel_Groups := groupModels\<rparr>
                in (resp\<lparr>Response_State := Some data\<rparr>, s1)))"

section \<open>A directory to run the operations on\<close>

text \<open>
  The results below that run the provider need a server. This one keeps its entries as an
  association list from the DN to the attributes, stores what is added as it is written,
  and answers as a directory does through go-ldap: a request for an object that is not
  there fails with result code 32, and the library renders an error as
  \<open>LDAP Result Code <code> "<name of the code>": <the server's message>\<close> (the message
  is empty here). Of the search filters it understands \<open>(objectClass=group)\<close> only.
\<close>

type_synonym Directory = "(string \<times> (string \<times> string list) list) list"

definition resultText :: "string \<Rightarrow> string \<Rightarrow> string" where
  "resultText code name =
     ''LDAP Result Code '' @ code @ '' '' @ [CHR 0x22] @ name @ [CHR 0x22] @ '': ''"

definition noSuchObject :: string where
  "noSuchObject = resultText ''32'' ''No Such Object''"

definition noSuchAttribute :: string where
  "noSuchAttribute = resultText ''16'' ''No Such Attribute''"

definition entryAlreadyExists :: string where
  "entryAlreadyExists = resultText ''68'' ''Entry Already Exists''"

definition filterCompileError :: string where
  "filterCompileError = resultText ''201'' ''Filter Compile Error''"

definition isGroup :: "(string \<times> string list) list \<Rightarrow> bool" where
  "isGroup attrs =
     (case map_of attrs ''objectClass'' of None \<Rightarrow> False | Some vs \<Rightarrow> ''group'' \<in> set vs)"

definition dirEntry :: "string list \<Rightarrow> string \<times> (string \<times> string list) list \<Rightarrow> Entry" where
  "dirEntry wanted e =
     \<lparr>Entry_DN = fst e, Entry_Attributes = filter (\<lambda>a. fst a \<in> set wanted) (snd e)\<rparr>"

definition underBase :: "string \<Rightarrow> string \<Rightarrow> bool" where
  "underBase base dn = (drop (length dn - length base) dn = base)"

definition dir_Search :: "SearchRequest \<Rightarrow> Directory \<Rightarrow> (string + Entry list) \<times> Directory" where
  "dir_Search req d =
     (if SearchRequest_Filter req \<noteq> ''(objectClass=group)'' then (Inl filterCompileError, d)
      else if SearchRequest_Scope req = ScopeBaseObject then
        (case map_of d (SearchRequest_BaseDN req) of
           None \<Rightarrow> (Inl noSuchObject, d)
         | Some attrs \<Rightarrow>
             (Inr (map (dirEntry (SearchRequest_Attributes req))
                     (filter (\<lambda>e. isGroup (snd e)) [(SearchRequest_BaseDN req, attrs)])), d))
      else
        (Inr (map (dirEntry (SearchRequest_Attributes req))
                (filter (\<lambda>e. underBase (SearchRequest_BaseDN req) (fst e) \<and> isGroup (snd e)) d)),
         d))"

definition dir_Add :: "AddRequest \<Rightarrow> Directory \<Rightarrow> error \<times> Directory" where
  "dir_Add req d =
     (case map_of d (AddRequest_DN req) of
        Some attrs \<Rightarrow> (Some entryAlreadyExists, d)
      | None \<Rightarrow> (None, d @ [(AddRequest_DN req, AddRequest_Attributes req)]))"

text \<open>One change of a modify request on the attributes of an entry; \<open>None\<close> when a value
  to delete is not there.\<close>

definition applyChange ::
  "Change \<Rightarrow> (string \<times> string list) list \<Rightarrow> (string \<times> string list) list option" where
  "applyChange ch attrs =
     (let a = Change_Type ch;
          old = (case map_of attrs a of None \<Rightarrow> [] | Some vs \<Rightarrow> vs);
          others = filter (\<lambda>p. fst p \<noteq> a) attrs
      in case Change_Operation ch of
           AddAttribute \<Rightarrow> Some (others @ [(a, old @ Change_Vals ch)])
         | ReplaceAttribute \<Rightarrow> Some (others @ [(a, Change_Vals ch)])
         | DeleteAttribute \<Rightarrow>
             if Change_Vals ch = [] then Some others
             else if set (Change_Vals ch) \<subseteq> set old
             then Some (others @ [(a, filter (\<lambda>v. v \<notin> set (Change_Vals ch)) old)])
             else None)"

fun applyChanges ::
  "Change list \<Rightarrow> (string \<times> string list) list \<Rightarrow> (string \<times> string list) list option" where
  "applyChanges [] attrs = Some attrs"
| "applyChanges (ch # chs) attrs =
     (case applyChange ch attrs of None \<Rightarrow> None | Some attrs' \<Rightarrow> applyChanges chs attrs')"

definition dir_Modify :: "ModifyRequest \<Rightarrow> Directory \<Rightarrow> error \<times> Directory" where
  "dir_Modify req d =
     (case map_of d (ModifyRequest_DN req) of
        None \<Rightarrow> (Some noSuchObject, d)
      | Some attrs \<Rightarrow>
          (case applyChanges (ModifyRequest_Changes req) attrs of
             None \<Rightarrow> (Some noSuchAttribute, d)
           | Some attrs' \<Rightarrow>
               (None, map (\<lambda>e. if fst e = ModifyRequest_DN req then (fst e, attrs') else e) d)))"

definition dir_Del :: "DelRequest \<Rightarrow> Directory \<Rightarrow> error \<times> Directory" where
  "dir_Del req d =
     (case map_of d (DelRequest_DN req) of
        None \<Rightarrow> (Some noSuchObject, d)
      | Some attrs \<Rightarrow> (None, filter (\<lambda>e. fst e \<noteq> DelRequest_DN req) d))"

definition dir_ModifyDN :: "ModifyDNRequest \<Rightarrow> Directory \<Rightarrow> error \<times> Directory" where
  "dir_ModifyDN req d =
     (case map_of d (ModifyDNRequest_DN req) of
        None \<Rightarrow> (Some noSuchObject, d)
      | Some attrs \<Rightarrow>
          (None,
           map (\<lambda>e. if fst e = ModifyDNRequest_DN req
                     then (ModifyDNRequest_NewRDN req @ '','' @ ModifyDNRequest_NewSuperior req, snd e)
                     else e) d))"

definition dirConn :: "Directory Conn" where
  "dirConn =
     \<lparr>Conn_Search = dir_Search, Conn_Add = dir_Add, Conn_Modify = dir_Modify,
      Conn_Del = dir_Del, Conn_ModifyDN = dir_ModifyDN\<rparr>"

text \<open>A client with its session to that directory, and a response with nothing in it yet.\<close>

definition dirClient :: "Directory Client" where
  "dirClient =
     \<lparr>conn = Some dirConn, baseDN = ''DC=x'', username = ''admin'', password = ''secret'',
      server = ''dc.x'', port = 389, useTLS = False\<rparr>"

definition noResponse :: "'m Response" where
  "noResponse = \<lparr>Response_Diagnostics = [], Response_State = None\<rparr>"

text \<open>The prior state of a group resource and of a membership resource, as far as
  \<open>Delete\<close> reads it: the DN of the group; the DNs of the group and the member.\<close>

definition groupState :: "string \<Rightarrow> GroupResourceModel" where
  "groupState dn =
     \<lparr>GroupResourceModel_ID = Value dn, GroupResourceModel_DN = Value dn,
      GroupResourceModel_CN = Null, GroupResourceModel_Name = Null,
      GroupResourceModel_SamAccountName = Null, GroupResourceModel_Description = Null,
      GroupResourceModel_GroupType = Null, GroupResourceModel_ManagedBy = Null,
      GroupResourceModel_OU = Null, GroupResourceModel_ObjectGUID = Null,
      GroupResourceModel_ObjectSid = Null\<rparr>"

definition membershipState :: "string \<Rightarrow> string \<Rightarrow> GroupMembershipResourceModel" where
  "membershipState groupDN memberDN =
     \<lparr>GroupMembershipResourceModel_ID = Value (groupDN @ ''|'' @ memberDN),
      GroupMembershipResourceModel_GroupDN = Value groupDN,
      GroupMembershipResourceModel_MemberDN = Value memberDN\<rparr>"

text \<open>A provider configuration that asks for TLS and gives no port, and an environment
  in which only \<open>AD_PORT\<close> is set, to the TLS port.\<close>

definition tlsConfig :: ADGroupsProviderModel where
  "tlsConfig =
     \<lparr>ADGroupsProviderModel_Server = Value ''dc.x'', ADGroupsProviderModel_Port = Null,
      ADGroupsProviderModel_BaseDN = Value ''DC=x'', ADGroupsProviderModel_Username = Value ''admin'',
      ADGroupsProviderModel_Password = Value ''secret'', ADGroupsProviderModel_UseTLS = Value True,
      ADGroupsProviderModel_Insecure = Null\<rparr>"

definition portEnv :: "string \<Rightarrow> string" where
  "portEnv name = (if name = ''AD_PORT'' then ''636'' else [])"

definition noConfigureResponse :: "'c ConfigureResponse" where
  "noConfigureResponse =
     \<lparr>ConfigureResponse_Diagnostics = [], ConfigureResponse_DataSourceData = None,
      ConfigureResponse_ResourceData = None\<rparr>"

text \<open>An import response with nothing in it yet, and \<open>%q\<close> on a string of plain
  printable ASCII: the string between double quotes.\<close>

definition noImportState :: ImportStateResponse where
  "noImportState =
     \<lparr>ImportStateResponse_Diagnostics = [], ImportStateResponse_State = Map.empty\<rparr>"

definition quotePlain :: "string \<Rightarrow> string" where
  "quotePlain s = [CHR 0x22] @ s @ [CHR 0x22]"

text \<open>
  On a string that \<open>strconv.ParseInt\<close> accepts, \<open>Sscanf\<close> with \<open>%d\<close> scans one item
  without an error. \<open>scanDecimal\<close> is a scanner that does so and refuses every other
  string (the library's also accepts some of those, a number with other text behind it for
  one).
\<close>

definition scanDecimal :: "string \<Rightarrow> int \<times> error" where
  "scanDecimal str =
     (case ParseInt str of Inr v \<Rightarrow> (1, None) | Inl e \<Rightarrow> (0, Some ''expected integer''))"

text \<open>A directory with one group, which has no member; a directory with two groups, the
  second without a group type.\<close>

definition oneGroup :: Directory where
  "oneGroup = [(''CN=g,DC=x'', [(''objectClass'', [''top'', ''group'']), (''cn'', [''g''])])]"

definition twoGroups :: Directory where
  "twoGroups =
     [(''CN=eng,DC=x'',
       [(''objectClass'', [''top'', ''group'']), (''cn'', [''eng'']),
        (''groupType'', [''-2147483646''])]),
      (''CN=ops,DC=x'',
       [(''objectClass'', [''top'', ''group'']), (''cn'', [''ops''])])]"

definition noFilter :: GroupsDataSourceModel where
  "noFilter =
     \<lparr>GroupsDataSourceModel_ID = Null, GroupsDataSourceModel_Filter = Null,
      GroupsDataSourceModel_Groups = []\<rparr>"

text \<open>The plan of a new group: its name, its organizational unit, its description and
  its group type.\<close>

definition groupPlan :: "string \<Rightarrow> string \<Rightarrow> string \<Rightarrow> int \<Rightarrow> GroupResourceModel" where
  "groupPlan cn ou description g =
     \<lparr>GroupResourceModel_ID = Unknown, GroupResourceModel_DN = Unknown,
      GroupResourceModel_CN = Value cn, GroupResourceModel_Name = Unknown,
      GroupResourceModel_SamAccountName = Unknown,
      GroupResourceModel_Description = Value description,
      GroupResourceModel_GroupType = Value g, GroupResourceModel_ManagedBy = Null,
      GroupResourceModel_OU = Value ou, GroupResourceModel_ObjectGUID = Unknown,
      GroupResourceModel_ObjectSid = Unknown\<rparr>"

section \<open>Facts about the library functions\<close>

lemma Split_Nil: "Split [] sep = [[]]"
  by (simp add: Split.simps)

lemma Split_Cons:
  "Split (x # xs) sep =
     (if x = sep then [] # Split xs sep
      else (case Split xs sep of p # ps \<Rightarrow> (x # p) # ps | [] \<Rightarrow> []))"
proof (cases "x = sep")
  case True
  then show ?thesis by (subst Split.simps) simp
next
  case False
  show ?thesis
  proof (cases "dropWhile (\<lambda>b. b \<noteq> sep) xs")
    case Nil
    then have "takeWhile (\<lambda>b. b \<noteq> sep) xs = xs"
      by (simp add: takeWhile_eq_all_conv)
    with Nil False show ?thesis
      by (subst Split.simps, subst (2) Split.simps) (simp only: dropWhile.simps takeWhile.simps Nil list.case if_True if_False simp_thms)
  next
    case (Cons y rest)
    with False show ?thesis
      by (subst Split.simps, subst (2) Split.simps) simp
  qed
qed

lemma Split_not_Nil: "Split s sep \<noteq> []"
  by (subst Split.simps) (simp split: list.split)

lemma length_Split: "length (Split s sep) = Suc (count_list s sep)"
proof (induction s)
  case Nil
  show ?case by (simp add: Split_Nil)
next
  case (Cons x xs)
  then show ?case
    by (cases "Split xs sep") (simp_all add: Split_Cons)
qed

lemma hd_Split: "hd (Split s sep) = takeWhile (\<lambda>b. b \<noteq> sep) s"
proof (cases "dropWhile (\<lambda>b. b \<noteq> sep) s")
  case Nil
  then have "takeWhile (\<lambda>b. b \<noteq> sep) s = s"
    by (simp add: takeWhile_eq_all_conv)
  with Nil show ?thesis
    by (subst Split.simps) (simp only: Nil list.case list.sel)
next
  case (Cons y rest)
  then show ?thesis by (subst Split.simps) simp
qed

text \<open>Writing an integer of the signed 64-bit range with \<open>%d\<close> and reading the text
  with \<open>strconv.ParseInt\<close> gives the integer back.\<close>

lemma digitVal_digit: "d < 10 \<Longrightarrow> digitVal (''0123456789'' ! d) = Some d"
proof -
  assume "d < 10"
  then consider "d = 0" | "d = 1" | "d = 2" | "d = 3" | "d = 4" | "d = 5" | "d = 6"
    | "d = 7" | "d = 8" | "d = 9"
    by atomize_elim arith
  then show ?thesis
    by cases (simp_all add: digitVal_def)
qed

lemma digit_not_sign:
  "d < 10 \<Longrightarrow> ''0123456789'' ! d \<noteq> CHR ''+'' \<and> ''0123456789'' ! d \<noteq> CHR ''-''"
proof -
  assume "d < 10"
  then consider "d = 0" | "d = 1" | "d = 2" | "d = 3" | "d = 4" | "d = 5" | "d = 6"
    | "d = 7" | "d = 8" | "d = 9"
    by atomize_elim arith
  then show ?thesis
    by cases simp_all
qed

lemma formatBits_not_Nil: "formatBits u \<noteq> []"
  by (subst formatBits.simps) simp

lemma hd_formatBits_not_sign:
  "hd (formatBits u) \<noteq> CHR ''+'' \<and> hd (formatBits u) \<noteq> CHR ''-''"
proof (induction u rule: formatBits.induct)
  case (1 u)
  show ?case
  proof (cases "u < 10")
    case True
    then show ?thesis
      by (subst formatBits.simps, subst (2) formatBits.simps) (simp add: digit_not_sign)
  next
    case False
    with 1 show ?thesis
      by (subst formatBits.simps, subst (2) formatBits.simps) (simp add: formatBits_not_Nil)
  qed
qed

lemma ParseUint_loop_formatBits:
  "n * 10 ^ length (formatBits u) + u \<le> maxUint64 \<Longrightarrow>
   ParseUint_loop n (formatBits u @ rest) =
     ParseUint_loop (n * 10 ^ length (formatBits u) + u) rest"
proof (induction u arbitrary: n rest rule: formatBits.induct)
  case (1 u)
  show ?case
  proof (cases "u < 10")
    case True
    then have fb: "formatBits u = [''0123456789'' ! u]"
      by (subst formatBits.simps) simp
    from 1(2) have "n * 10 + u \<le> maxUint64" by (simp add: fb)
    with True show ?thesis
      by (simp add: fb digitVal_digit)
  next
    case False
    then have fb: "formatBits u = formatBits (u div 10) @ [''0123456789'' ! (u mod 10)]"
      by (subst formatBits.simps) simp
    let ?l = "length (formatBits (u div 10))"
    from 1(2) have big: "n * 10 ^ ?l * 10 + u \<le> maxUint64"
      by (simp add: fb mult.assoc)
    have u: "u div 10 * 10 + u mod 10 = u" by simp
    have "(n * 10 ^ ?l + u div 10) * 10 + u mod 10 = n * 10 ^ ?l * 10 + u"
      using u by (simp add: algebra_simps)
    with big have step: "(n * 10 ^ ?l + u div 10) * 10 + u mod 10 \<le> maxUint64" by simp
    have "n * 10 ^ ?l + u div 10 \<le> (n * 10 ^ ?l + u div 10) * 10 + u mod 10" by simp
    from this step have small: "n * 10 ^ ?l + u div 10 \<le> maxUint64" by (rule le_trans)
    have "ParseUint_loop n (formatBits u @ rest) =
            ParseUint_loop n (formatBits (u div 10) @ (''0123456789'' ! (u mod 10)) # rest)"
      by (simp add: fb)
    also have "\<dots> = ParseUint_loop (n * 10 ^ ?l + u div 10) ((''0123456789'' ! (u mod 10)) # rest)"
      by (rule "1.IH" [OF False small])
    also have "\<dots> = ParseUint_loop ((n * 10 ^ ?l + u div 10) * 10 + u mod 10) rest"
      using step by (simp add: digitVal_digit)
    also have "(n * 10 ^ ?l + u div 10) * 10 + u mod 10 = n * 10 ^ length (formatBits u) + u"
      using u by (simp add: fb algebra_simps)
    finally show ?thesis .
  qed
qed

lemma ParseUint_formatBits: "u \<le> maxUint64 \<Longrightarrow> ParseUint (formatBits u) = Inr u"
  using ParseUint_loop_formatBits [of 0 u "[]"]
  by (simp add: ParseUint_def formatBits_not_Nil)

lemma ParseInt_Sprintf_d:
  assumes "- 9223372036854775808 \<le> g" and "g \<le> 9223372036854775807"
  shows "ParseInt (Sprintf_d g) = Inr g"
proof (cases "g < 0")
  case True
  with assms have u: "nat (- g) \<le> 9223372036854775808" by linarith
  then have "nat (- g) \<le> maxUint64" by (simp add: maxUint64_def)
  then have "ParseUint (formatBits (nat (- g))) = Inr (nat (- g))"
    by (rule ParseUint_formatBits)
  with True u show ?thesis
    by (simp add: ParseInt_def Sprintf_d_def)
next
  case False
  obtain c cs where fb: "formatBits (nat g) = c # cs"
    using formatBits_not_Nil [of "nat g"] by (cases "formatBits (nat g)") auto
  from hd_formatBits_not_sign [of "nat g"] fb
  have c: "c \<noteq> CHR ''+''" "c \<noteq> CHR ''-''" by simp_all
  from False assms have u: "nat g < 9223372036854775808" by linarith
  then have "nat g \<le> maxUint64" by (simp add: maxUint64_def)
  then have "ParseUint (formatBits (nat g)) = Inr (nat g)"
    by (rule ParseUint_formatBits)
  then have "ParseUint (c # cs) = Inr (nat g)" by (simp add: fb)
  with False c u show ?thesis
    by (simp add: ParseInt_def Sprintf_d_def fb)
qed

section \<open>The transport without a session\<close>

text \<open>The four methods of the client that wrap a call of the session check the session
  first: without one they return the error and the server is not asked.\<close>

lemma transport_not_connected:
  "Client_Search (c\<lparr>conn := None\<rparr>) sreq s = (Inl ''LDAP connection is not established'', s) \<and>
   Client_Add (c\<lparr>conn := None\<rparr>) areq s = (Some ''LDAP connection is not established'', s) \<and>
   Client_Modify (c\<lparr>conn := None\<rparr>) mreq s = (Some ''LDAP connection is not established'', s) \<and>
   Client_Delete (c\<lparr>conn := None\<rparr>) dreq s = (Some ''LDAP connection is not established'', s)"
  by (simp add: Client_Search_def Client_Add_def Client_Modify_def Client_Delete_def)

text \<open>
  C2. Every transport operation fails fast with the not-connected error when no session is
  established. \<open>Search\<close>, \<open>Add\<close>, \<open>Modify\<close> and \<open>Delete\<close> do (above); \<open>MoveGroup\<close>
  does not: with no session it returns no error at all, for any DN and any new parent it
  calls \<open>ModifyDN\<close> through the nil session and panics.
\<close>

theorem MoveGroup_without_session_panics:
  "MoveGroup (c\<lparr>conn := None\<rparr>) currentDN newParentDN s = (Panics, s) \<and>
   fst (MoveGroup (c\<lparr>conn := None\<rparr>) currentDN newParentDN s)
     \<noteq> Returns (Some ''LDAP connection is not established'')"
  by (simp add: MoveGroup_def Let_def Split_not_Nil ModifyDN_def)

section \<open>Moving a group\<close>

text \<open>
  C10. The invalid-DN-format branch of \<open>MoveGroup\<close> cannot be reached: splitting any
  string at the commas, the empty string too, gives at least one piece. So \<open>MoveGroup\<close>
  never returns that error, and what it does is always the call of \<open>ModifyDN\<close> with the
  first comma-separated piece of \<open>currentDN\<close> as the new RDN, the old RDN deleted, under
  the new parent.
\<close>

theorem MoveGroup_always_renames:
  "Split currentDN (CHR '','') \<noteq> [] \<and>
   fst (MoveGroup c currentDN newParentDN s) \<noteq> Returns (Some (''invalid DN format: '' @ currentDN)) \<and>
   MoveGroup c currentDN newParentDN s =
     (case ModifyDN (conn c)
             \<lparr>ModifyDNRequest_DN = currentDN,
              ModifyDNRequest_NewRDN = takeWhile (\<lambda>b. b \<noteq> CHR '','') currentDN,
              ModifyDNRequest_DeleteOldRDN = True,
              ModifyDNRequest_NewSuperior = newParentDN\<rparr> s of
        (Panics, s') \<Rightarrow> (Panics, s')
      | (Returns (Some err), s') \<Rightarrow>
          (Returns (Some (''failed to move group from '' @ currentDN @ '' to ''
                           @ takeWhile (\<lambda>b. b \<noteq> CHR '','') currentDN @ '','' @ newParentDN
                           @ '': '' @ err)), s')
      | (Returns None, s') \<Rightarrow> (Returns None, s'))"
proof (intro conjI)
  show "Split currentDN (CHR '','') \<noteq> []" by (rule Split_not_Nil)
  show eq: "MoveGroup c currentDN newParentDN s =
     (case ModifyDN (conn c)
             \<lparr>ModifyDNRequest_DN = currentDN,
              ModifyDNRequest_NewRDN = takeWhile (\<lambda>b. b \<noteq> CHR '','') currentDN,
              ModifyDNRequest_DeleteOldRDN = True,
              ModifyDNRequest_NewSuperior = newParentDN\<rparr> s of
        (Panics, s') \<Rightarrow> (Panics, s')
      | (Returns (Some err), s') \<Rightarrow>
          (Returns (Some (''failed to move group from '' @ currentDN @ '' to ''
                           @ takeWhile (\<lambda>b. b \<noteq> CHR '','') currentDN @ '','' @ newParentDN
                           @ '': '' @ err)), s')
      | (Returns None, s') \<Rightarrow> (Returns None, s'))"
    by (simp add: MoveGroup_def Let_def Split_not_Nil hd_Split NewModifyDNRequest_def
          split: prod.split outcome.split option.split)
  show "fst (MoveGroup c currentDN newParentDN s)
          \<noteq> Returns (Some (''invalid DN format: '' @ currentDN))"
    unfolding eq by (simp split: prod.split outcome.split option.split)
qed

section \<open>Escaping leaves plain strings alone\<close>

lemma Replace_id:
  "\<forall>b \<in> set s. map_of pairs b = None \<Longrightarrow> Replace pairs s = s"
  by (induction s) (simp_all add: Replace_def)

lemma EscapeDN_pairs_None:
  "b \<notin> EscapeDN_special \<Longrightarrow> map_of EscapeDN_pairs b = None"
  by (simp add: EscapeDN_special_def EscapeDN_pairs_def)

lemma EscapeFilter_pairs_None:
  "b \<notin> EscapeFilter_special \<Longrightarrow> map_of EscapeFilter_pairs b = None"
  by (simp add: EscapeFilter_special_def EscapeFilter_pairs_def)

text \<open>
  C3. A string with none of the bytes an escaper handles is returned unchanged, by
  \<open>EscapeDN\<close> (backslash, comma, plus, double quote, angle brackets, semicolon, equals,
  newline, carriage return, NUL) and by \<open>EscapeFilter\<close> (backslash, asterisk, parentheses,
  NUL).
\<close>

theorem escape_plain_unchanged:
  "(set v \<inter> EscapeDN_special = {} \<longrightarrow> EscapeDN v = v) \<and>
   (set v \<inter> EscapeFilter_special = {} \<longrightarrow> EscapeFilter v = v)"
proof (intro conjI impI)
  assume "set v \<inter> EscapeDN_special = {}"
  then have "\<forall>b \<in> set v. map_of EscapeDN_pairs b = None"
    using EscapeDN_pairs_None by blast
  then show "EscapeDN v = v"
    unfolding EscapeDN_def by (rule Replace_id)
next
  assume "set v \<inter> EscapeFilter_special = {}"
  then have "\<forall>b \<in> set v. map_of EscapeFilter_pairs b = None"
    using EscapeFilter_pairs_None by blast
  then show "EscapeFilter v = v"
    unfolding EscapeFilter_def by (rule Replace_id)
qed

theorem escape_plain_unchanged_witness:
  "set ''Domain Admins'' \<inter> EscapeDN_special = {} \<and>
   EscapeDN ''Domain Admins'' = ''Domain Admins'' \<and>
   set ''Domain Admins'' \<inter> EscapeFilter_special = {} \<and>
   EscapeFilter ''Domain Admins'' = ''Domain Admins''"
proof -
  have d: "set ''Domain Admins'' \<inter> EscapeDN_special = {}"
    by (simp add: EscapeDN_special_def)
  have f: "set ''Domain Admins'' \<inter> EscapeFilter_special = {}"
    by (simp add: EscapeFilter_special_def)
  from d f escape_plain_unchanged [of "''Domain Admins''"] show ?thesis
    by blast
qed
section \<open>Deleting what is not there\<close>

text \<open>
  C1. Deleting a group that does not exist reports success. On the empty directory the
  group \<open>CN=g,DC=x\<close> does not exist; the server answers the delete with result code 32,
  whose text has no \<open>not found\<close> in it, and \<open>Delete\<close> of the group resource adds the
  error.
\<close>

theorem group_delete_absent_adds_error:
  "GroupResource_Delete dirClient (groupState ''CN=g,DC=x'') noResponse [] =
     (\<lparr>Response_Diagnostics =
         [(''Client Error'',
           ''Unable to delete group, got error: failed to delete group CN=g,DC=x: ''
             @ ''LDAP delete failed: '' @ noSuchObject)],
       Response_State = None\<rparr>, [])"
  by (simp add: GroupResource_Delete_def DeleteGroup_def Client_Delete_def dirClient_def
        dirConn_def dir_Del_def groupState_def noResponse_def NewDelRequest_def
        ValueString_def HasError_def AddError_def noSuchObject_def resultText_def)

text \<open>
  C6. Removing a membership edge that does not exist reports success. On the empty
  directory the group \<open>CN=g,DC=x\<close> does not exist; the server answers the modify with
  result code 32, whose text \<open>No Such Object\<close> is none of the three phrases \<open>Delete\<close> of
  the membership resource looks for (it compares with \<open>no such object\<close> in lower case),
  and the error is added. On the directory in which the group exists and has no member, the
  server answers with result code 16, and the error is added as well.
\<close>

theorem membership_delete_absent_adds_error:
  "GroupMembershipResource_Delete dirClient (membershipState ''CN=g,DC=x'' ''CN=u,DC=x'')
       noResponse [] =
     (\<lparr>Response_Diagnostics =
         [(''Client Error'',
           ''Unable to remove member from group, got error: ''
             @ ''failed to remove member CN=u,DC=x from group CN=g,DC=x: ''
             @ ''LDAP modify failed: '' @ noSuchObject)],
       Response_State = None\<rparr>, []) \<and>
   GroupMembershipResource_Delete dirClient (membershipState ''CN=g,DC=x'' ''CN=u,DC=x'')
       noResponse oneGroup =
     (\<lparr>Response_Diagnostics =
         [(''Client Error'',
           ''Unable to remove member from group, got error: ''
             @ ''failed to remove member CN=u,DC=x from group CN=g,DC=x: ''
             @ ''LDAP modify failed: '' @ noSuchAttribute)],
       Response_State = None\<rparr>, oneGroup)"
proof
  show "GroupMembershipResource_Delete dirClient (membershipState ''CN=g,DC=x'' ''CN=u,DC=x'')
       noResponse [] =
     (\<lparr>Response_Diagnostics =
         [(''Client Error'',
           ''Unable to remove member from group, got error: ''
             @ ''failed to remove member CN=u,DC=x from group CN=g,DC=x: ''
             @ ''LDAP modify failed: '' @ noSuchObject)],
       Response_State = None\<rparr>, [])"
    by (simp add: GroupMembershipResource_Delete_def RemoveMemberFromGroup_def Client_Modify_def
          dirClient_def dirConn_def dir_Modify_def membershipState_def noResponse_def
          NewModifyRequest_def ModifyRequest_Delete_def appendChange_def
          ValueString_def HasError_def AddError_def noSuchObject_def resultText_def)
  show "GroupMembershipResource_Delete dirClient (membershipState ''CN=g,DC=x'' ''CN=u,DC=x'')
       noResponse oneGroup =
     (\<lparr>Response_Diagnostics =
         [(''Client Error'',
           ''Unable to remove member from group, got error: ''
             @ ''failed to remove member CN=u,DC=x from group CN=g,DC=x: ''
             @ ''LDAP modify failed: '' @ noSuchAttribute)],
       Response_State = None\<rparr>, oneGroup)"
    by (simp add: GroupMembershipResource_Delete_def RemoveMemberFromGroup_def Client_Modify_def
          dirClient_def dirConn_def dir_Modify_def membershipState_def noResponse_def
          NewModifyRequest_def ModifyRequest_Delete_def appendChange_def applyChange_def
          oneGroup_def ValueString_def HasError_def AddError_def noSuchAttribute_def
          resultText_def)
qed

section \<open>The default port\<close>

text \<open>
  C7. With no port in the configuration the port is 389, and 636 whenever TLS is asked for,
  in every branch, also when \<open>AD_PORT\<close> is set. With TLS asked for in the configuration
  and \<open>AD_PORT\<close> set to 636, the port handed to the client is 389, with TLS on.
\<close>

theorem tls_port_with_AD_PORT_set:
  "Configure_port portEnv tlsConfig = 389 \<and>
   map_option ClientConfig_Port
     (ConfigureResponse_ResourceData (Configure portEnv Inr tlsConfig noConfigureResponse))
     = Some 389 \<and>
   map_option ClientConfig_UseTLS
     (ConfigureResponse_ResourceData (Configure portEnv Inr tlsConfig noConfigureResponse))
     = Some True"
  by (simp add: Configure_def Configure_port_def portEnv_def tlsConfig_def noConfigureResponse_def
        ValueString_def ValueInt64_def ValueBool_def HasError_def Let_def)

section \<open>Importing a group membership\<close>

lemma Split_example:
  "Split ''CN=g,DC=x|CN=u,DC=x'' (CHR ''|'') = [''CN=g,DC=x'', ''CN=u,DC=x'']"
  by (simp add: Split_Cons Split_Nil)

text \<open>
  C5. The import identifier \<open>CN=g,DC=x|CN=u,DC=x\<close> is taken apart into the group DN
  \<open>CN=g,DC=x\<close> and the member DN \<open>CN=u,DC=x\<close>; an identifier that does not have
  exactly one \<open>|\<close> in it gets the validation error, and no attribute is set.
\<close>

theorem import_identifier:
  "GroupMembershipResource_ImportState Quote ''CN=g,DC=x|CN=u,DC=x'' resp =
     resp\<lparr>ImportStateResponse_State :=
       (ImportStateResponse_State resp)
         (''id'' \<mapsto> ''CN=g,DC=x|CN=u,DC=x'', ''group_dn'' \<mapsto> ''CN=g,DC=x'',
          ''member_dn'' \<mapsto> ''CN=u,DC=x'')\<rparr> \<and>
   (count_list reqID (CHR ''|'') \<noteq> 1 \<longrightarrow>
      GroupMembershipResource_ImportState Quote reqID resp =
        resp\<lparr>ImportStateResponse_Diagnostics :=
          AddError (ImportStateResponse_Diagnostics resp) ''Unexpected Import Identifier''
            (''Expected import identifier with format: groupDN|memberDN. Got: '' @ Quote reqID)\<rparr> \<and>
      HasError (ImportStateResponse_Diagnostics
                  (GroupMembershipResource_ImportState Quote reqID resp)) \<and>
      ImportStateResponse_State (GroupMembershipResource_ImportState Quote reqID resp) =
        ImportStateResponse_State resp)"
proof (intro conjI impI)
  show "GroupMembershipResource_ImportState Quote ''CN=g,DC=x|CN=u,DC=x'' resp =
     resp\<lparr>ImportStateResponse_State :=
       (ImportStateResponse_State resp)
         (''id'' \<mapsto> ''CN=g,DC=x|CN=u,DC=x'', ''group_dn'' \<mapsto> ''CN=g,DC=x'',
          ''member_dn'' \<mapsto> ''CN=u,DC=x'')\<rparr>"
    by (simp add: GroupMembershipResource_ImportState_def Split_example SetAttribute_def)
next
  assume "count_list reqID (CHR ''|'') \<noteq> 1"
  then have len: "length (Split reqID (CHR ''|'')) \<noteq> 2"
    by (simp add: length_Split)
  then show bad: "GroupMembershipResource_ImportState Quote reqID resp =
        resp\<lparr>ImportStateResponse_Diagnostics :=
          AddError (ImportStateResponse_Diagnostics resp) ''Unexpected Import Identifier''
            (''Expected import identifier with format: groupDN|memberDN. Got: '' @ Quote reqID)\<rparr>"
    by (simp add: GroupMembershipResource_ImportState_def Let_def)
  show "HasError (ImportStateResponse_Diagnostics
                  (GroupMembershipResource_ImportState Quote reqID resp))"
    unfolding bad by (auto simp add: HasError_def AddError_def)
  show "ImportStateResponse_State (GroupMembershipResource_ImportState Quote reqID resp) =
        ImportStateResponse_State resp"
    unfolding bad by simp
qed

theorem import_identifier_witness:
  "count_list ''CN=g,DC=x'' (CHR ''|'') \<noteq> 1 \<and>
   count_list ''a|b|c'' (CHR ''|'') \<noteq> 1 \<and>
   GroupMembershipResource_ImportState quotePlain ''CN=g,DC=x'' noImportState =
     noImportState\<lparr>ImportStateResponse_Diagnostics :=
       [(''Unexpected Import Identifier'',
         ''Expected import identifier with format: groupDN|memberDN. Got: ''
           @ quotePlain ''CN=g,DC=x'')]\<rparr> \<and>
   ImportStateResponse_State
     (GroupMembershipResource_ImportState quotePlain ''a|b|c'' noImportState) = Map.empty \<and>
   HasError (ImportStateResponse_Diagnostics
     (GroupMembershipResource_ImportState quotePlain ''a|b|c'' noImportState))"
proof -
  have n0: "count_list ''CN=g,DC=x'' (CHR ''|'') \<noteq> 1" by simp
  have n2: "count_list ''a|b|c'' (CHR ''|'') \<noteq> 1" by simp
  note t0 = import_identifier [of quotePlain noImportState "''CN=g,DC=x''",
      THEN conjunct2, rule_format, OF n0]
  note t2 = import_identifier [of quotePlain noImportState "''a|b|c''",
      THEN conjunct2, rule_format, OF n2]
  have d: "AddError (ImportStateResponse_Diagnostics noImportState) a b = [(a, b)]" for a b
    by (simp add: AddError_def noImportState_def)
  have st: "ImportStateResponse_State noImportState = Map.empty"
    by (simp add: noImportState_def)
  from t0 [THEN conjunct1] have c3: "GroupMembershipResource_ImportState quotePlain ''CN=g,DC=x'' noImportState =
     noImportState\<lparr>ImportStateResponse_Diagnostics :=
       [(''Unexpected Import Identifier'',
         ''Expected import identifier with format: groupDN|memberDN. Got: ''
           @ quotePlain ''CN=g,DC=x'')]\<rparr>"
    by (simp only: d)
  have c4: "ImportStateResponse_State
     (GroupMembershipResource_ImportState quotePlain ''a|b|c'' noImportState) = Map.empty"
    using t2 [THEN conjunct2, THEN conjunct2] st by (rule trans)
  from t2 have c5: "HasError (ImportStateResponse_Diagnostics
     (GroupMembershipResource_ImportState quotePlain ''a|b|c'' noImportState))"
    by (rule conjunct2 [THEN conjunct1])
  from n0 n2 c3 c4 c5 show ?thesis by (intro conjI)
qed

section \<open>Creating a group\<close>

text \<open>
  C4. \<open>CreateGroup\<close> makes the DN \<open>CN=<escaped cn>,<ou>\<close>; the add request has the object
  classes \<open>top\<close> and \<open>group\<close>, the raw \<open>cn\<close> as \<open>cn\<close>, \<open>name\<close> and
  \<open>sAMAccountName\<close>, a description exactly when the description is not empty, and the
  decimal text of the group type; when the add succeeds, what is returned is the group read
  at that DN, on the state the add has left, and that reading is a search of the DN itself
  (base scope) for a group.
\<close>

theorem CreateGroup_request:
  "CreateGroup c ou cn description groupType s =
     (case Client_Add c
             \<lparr>AddRequest_DN = ''CN='' @ EscapeDN cn @ '','' @ ou,
              AddRequest_Attributes =
                [(''objectClass'', [''top'', ''group'']),
                 (''cn'', [cn]), (''name'', [cn]), (''sAMAccountName'', [cn])]
                @ (if description \<noteq> [] then [(''description'', [description])] else [])
                @ [(''groupType'', [Sprintf_d groupType])]\<rparr> s of
        (Some err, s') \<Rightarrow>
          (Inl (''failed to create group '' @ (''CN='' @ EscapeDN cn @ '','' @ ou) @ '': '' @ err), s')
      | (None, s') \<Rightarrow> GetGroup c (''CN='' @ EscapeDN cn @ '','' @ ou) s') \<and>
   GetGroup c dn s1 =
     (case Client_Search c
             \<lparr>SearchRequest_BaseDN = dn, SearchRequest_Scope = ScopeBaseObject,
              SearchRequest_DerefAliases = NeverDerefAliases, SearchRequest_SizeLimit = 0,
              SearchRequest_TimeLimit = 0, SearchRequest_TypesOnly = False,
              SearchRequest_Filter = ''(objectClass=group)'',
              SearchRequest_Attributes = groupAttributes\<rparr> s1 of
        (Inl err, s2) \<Rightarrow> (Inl (''failed to search for group '' @ dn @ '': '' @ err), s2)
      | (Inr [], s2) \<Rightarrow> (Inl (''group not found: '' @ dn), s2)
      | (Inr (entry # rest), s2) \<Rightarrow> (Inr (entryGroup entry), s2))"
proof
  show "CreateGroup c ou cn description groupType s =
     (case Client_Add c
             \<lparr>AddRequest_DN = ''CN='' @ EscapeDN cn @ '','' @ ou,
              AddRequest_Attributes =
                [(''objectClass'', [''top'', ''group'']),
                 (''cn'', [cn]), (''name'', [cn]), (''sAMAccountName'', [cn])]
                @ (if description \<noteq> [] then [(''description'', [description])] else [])
                @ [(''groupType'', [Sprintf_d groupType])]\<rparr> s of
        (Some err, s') \<Rightarrow>
          (Inl (''failed to create group '' @ (''CN='' @ EscapeDN cn @ '','' @ ou) @ '': '' @ err), s')
      | (None, s') \<Rightarrow> GetGroup c (''CN='' @ EscapeDN cn @ '','' @ ou) s')"
    by (simp add: CreateGroup_def Let_def NewAddRequest_def Attribute_def
          split: prod.split option.split)
  show "GetGroup c dn s1 =
     (case Client_Search c
             \<lparr>SearchRequest_BaseDN = dn, SearchRequest_Scope = ScopeBaseObject,
              SearchRequest_DerefAliases = NeverDerefAliases, SearchRequest_SizeLimit = 0,
              SearchRequest_TimeLimit = 0, SearchRequest_TypesOnly = False,
              SearchRequest_Filter = ''(objectClass=group)'',
              SearchRequest_Attributes = groupAttributes\<rparr> s1 of
        (Inl err, s2) \<Rightarrow> (Inl (''failed to search for group '' @ dn @ '': '' @ err), s2)
      | (Inr [], s2) \<Rightarrow> (Inl (''group not found: '' @ dn), s2)
      | (Inr (entry # rest), s2) \<Rightarrow> (Inr (entryGroup entry), s2))"
    by (simp add: GetGroup_def Let_def NewSearchRequest_def
          split: prod.split sum.split list.split)
qed

section \<open>The group type, written and read back\<close>

lemma Sprintf_d_not_Nil: "Sprintf_d g \<noteq> []"
  by (simp add: Sprintf_d_def formatBits_not_Nil)

lemma map_of_filter_fst:
  "map_of (filter (\<lambda>a. fst a \<in> W) attrs) k = (if k \<in> W then map_of attrs k else None)"
  by (induction attrs) auto

lemma GetGroup_dir:
  assumes "map_of d dn = Some attrs" and "isGroup attrs"
  shows "GetGroup dirClient dn d = (Inr (entryGroup (dirEntry groupAttributes (dn, attrs))), d)"
  using assms
  by (simp add: GetGroup_def Client_Search_def dirClient_def dirConn_def dir_Search_def
        NewSearchRequest_def)

lemma entryGroup_dir_DN: "Group_DN (entryGroup (dirEntry W (dn, attrs))) = dn"
  by (simp add: entryGroup_def dirEntry_def)

lemma entryGroup_dir_GroupType:
  "map_of attrs ''groupType'' = Some [v] \<Longrightarrow>
   Group_GroupType (entryGroup (dirEntry groupAttributes (dn, attrs))) = v"
proof -
  assume v: "map_of attrs ''groupType'' = Some [v]"
  have "map_of (filter (\<lambda>a. fst a \<in> set groupAttributes) attrs) ''groupType'' =
          map_of attrs ''groupType''"
    by (simp only: map_of_filter_fst) (simp add: groupAttributes_def)
  with v show ?thesis
    by (simp add: entryGroup_def dirEntry_def GetAttributeValue_def GetAttributeValues_def)
qed

lemma CreateGroup_dir:
  assumes "map_of d (''CN='' @ EscapeDN cn @ '','' @ ou) = None"
  shows "\<exists>attrs. map_of attrs ''groupType'' = Some [Sprintf_d g] \<and> isGroup attrs \<and>
           CreateGroup dirClient ou cn description g d =
             GetGroup dirClient (''CN='' @ EscapeDN cn @ '','' @ ou)
               (d @ [(''CN='' @ EscapeDN cn @ '','' @ ou, attrs)])"
proof (cases "description = []")
  case True
  let ?attrs = "[(''objectClass'', [''top'', ''group'']), (''cn'', [cn]), (''name'', [cn]),
                 (''sAMAccountName'', [cn]), (''groupType'', [Sprintf_d g])]"
  have "map_of ?attrs ''groupType'' = Some [Sprintf_d g]" by simp
  moreover have "isGroup ?attrs" by (simp add: isGroup_def)
  moreover have "CreateGroup dirClient ou cn description g d =
             GetGroup dirClient (''CN='' @ EscapeDN cn @ '','' @ ou)
               (d @ [(''CN='' @ EscapeDN cn @ '','' @ ou, ?attrs)])"
    using assms True
    by (simp add: CreateGroup_def Let_def NewAddRequest_def Attribute_def Client_Add_def
          dirClient_def dirConn_def dir_Add_def)
  ultimately show ?thesis by blast
next
  case False
  let ?attrs = "[(''objectClass'', [''top'', ''group'']), (''cn'', [cn]), (''name'', [cn]),
                 (''sAMAccountName'', [cn]), (''description'', [description]),
                 (''groupType'', [Sprintf_d g])]"
  have "map_of ?attrs ''groupType'' = Some [Sprintf_d g]" by simp
  moreover have "isGroup ?attrs" by (simp add: isGroup_def)
  moreover have "CreateGroup dirClient ou cn description g d =
             GetGroup dirClient (''CN='' @ EscapeDN cn @ '','' @ ou)
               (d @ [(''CN='' @ EscapeDN cn @ '','' @ ou, ?attrs)])"
    using assms False
    by (simp add: CreateGroup_def Let_def NewAddRequest_def Attribute_def Client_Add_def
          dirClient_def dirConn_def dir_Add_def)
  ultimately show ?thesis by blast
qed

lemma mapGroup_GroupType:
  "ParseInt (Group_GroupType grp) = Inr g \<Longrightarrow> Group_GroupType grp \<noteq> [] \<Longrightarrow>
   GroupResourceModel_GroupType (mapGroup data grp) = Value g"
  by (simp add: mapGroup_def Let_def)

lemma mapGroup_DN: "GroupResourceModel_DN (mapGroup data grp) = Value (Group_DN grp)"
  by (simp add: mapGroup_def Let_def split: sum.split)

text \<open>
  C8. For every group type \<open>g\<close> of the signed 32-bit range, creating a group with it and
  reading the group back gives \<open>g\<close>, on a directory that stores what is written (and has
  no object of the new DN yet, so that the add succeeds): \<open>CreateGroup\<close> returns the
  group as read back, with the decimal text of \<open>g\<close>; \<open>GetGroup\<close> right after returns
  the same; \<open>Create\<close> of the group resource puts \<open>g\<close> into the state, and \<open>Read\<close>
  of that state gives \<open>g\<close> again.
\<close>

theorem group_type_round_trip:
  assumes lo: "- 2147483648 \<le> g" and hi: "g \<le> 2147483647"
      and free: "map_of d (''CN='' @ EscapeDN cn @ '','' @ ou) = None"
  shows "\<exists>grp d' data'.
           CreateGroup dirClient ou cn description g d = (Inr grp, d') \<and>
           ParseInt (Group_GroupType grp) = Inr g \<and>
           GetGroup dirClient (Group_DN grp) d' = (Inr grp, d') \<and>
           GroupResource_Create dirClient (groupPlan cn ou description g) noResponse d =
             (noResponse\<lparr>Response_State := Some data'\<rparr>, d') \<and>
           GroupResourceModel_GroupType data' = Value g \<and>
           map_option GroupResourceModel_GroupType
             (Response_State (fst (GroupResource_Read dirClient data' noResponse d')))
             = Some (Value g)"
proof -
  let ?dn = "''CN='' @ EscapeDN cn @ '','' @ ou"
  from CreateGroup_dir [OF free, of g description]
  obtain attrs where gt: "map_of attrs ''groupType'' = Some [Sprintf_d g]"
    and grp: "isGroup attrs"
    and cr: "CreateGroup dirClient ou cn description g d =
               GetGroup dirClient ?dn (d @ [(?dn, attrs)])"
    by blast
  let ?d' = "d @ [(?dn, attrs)]"
  let ?grp = "entryGroup (dirEntry groupAttributes (?dn, attrs))"
  have stored: "map_of ?d' ?dn = Some attrs"
    using free by (simp add: map_add_def)
  have get: "GetGroup dirClient ?dn ?d' = (Inr ?grp, ?d')"
    using stored grp by (rule GetGroup_dir)
  have dn: "Group_DN ?grp = ?dn" by (rule entryGroup_dir_DN)
  have gtext: "Group_GroupType ?grp = Sprintf_d g"
    using gt by (rule entryGroup_dir_GroupType)
  have parse: "ParseInt (Group_GroupType ?grp) = Inr g"
    unfolding gtext using lo hi by (intro ParseInt_Sprintf_d) simp_all
  have ne: "Group_GroupType ?grp \<noteq> []"
    unfolding gtext by (rule Sprintf_d_not_Nil)
  let ?plan = "groupPlan cn ou description g"
  let ?data = "mapGroup ?plan ?grp"
  have create: "GroupResource_Create dirClient ?plan noResponse d =
                  (noResponse\<lparr>Response_State := Some ?data\<rparr>, ?d')"
    using cr get
    by (simp add: GroupResource_Create_def groupPlan_def noResponse_def HasError_def
          IsNull_def IsUnknown_def ValueInt64_def ValueString_def)
  have val: "GroupResourceModel_GroupType ?data = Value g"
    using parse ne by (rule mapGroup_GroupType)
  have "GroupResource_Read dirClient ?data noResponse ?d' =
          (noResponse\<lparr>Response_State := Some (mapGroup ?data ?grp)\<rparr>, ?d')"
    using get
    by (simp add: GroupResource_Read_def mapGroup_DN entryGroup_dir_DN noResponse_def
          HasError_def ValueString_def)
  moreover have "GroupResourceModel_GroupType (mapGroup ?data ?grp) = Value g"
    using parse ne by (rule mapGroup_GroupType)
  ultimately have read: "map_option GroupResourceModel_GroupType
             (Response_State (fst (GroupResource_Read dirClient ?data noResponse ?d')))
             = Some (Value g)"
    by simp
  from cr get have c1: "CreateGroup dirClient ou cn description g d = (Inr ?grp, ?d')" by simp
  from get dn have c3: "GetGroup dirClient (Group_DN ?grp) ?d' = (Inr ?grp, ?d')" by simp
  from c1 parse c3 create val read show ?thesis by blast
qed

theorem group_type_round_trip_witness:
  "- 2147483648 \<le> (- 2147483646 :: int) \<and> (- 2147483646 :: int) \<le> 2147483647 \<and>
   map_of ([] :: Directory) (''CN='' @ EscapeDN ''eng'' @ '','' @ ''OU=Groups,DC=x'') = None \<and>
   (\<exists>grp d' data'.
      CreateGroup dirClient ''OU=Groups,DC=x'' ''eng'' ''Engineering team'' (- 2147483646) []
        = (Inr grp, d') \<and>
      ParseInt (Group_GroupType grp) = Inr (- 2147483646) \<and>
      GetGroup dirClient (Group_DN grp) d' = (Inr grp, d') \<and>
      GroupResource_Create dirClient
          (groupPlan ''eng'' ''OU=Groups,DC=x'' ''Engineering team'' (- 2147483646)) noResponse []
        = (noResponse\<lparr>Response_State := Some data'\<rparr>, d') \<and>
      GroupResourceModel_GroupType data' = Value (- 2147483646) \<and>
      map_option GroupResourceModel_GroupType
        (Response_State (fst (GroupResource_Read dirClient data' noResponse d')))
        = Some (Value (- 2147483646)))"
proof -
  have lo: "- 2147483648 \<le> (- 2147483646 :: int)" by simp
  have hi: "(- 2147483646 :: int) \<le> 2147483647" by simp
  have free: "map_of ([] :: Directory) (''CN='' @ EscapeDN ''eng'' @ '','' @ ''OU=Groups,DC=x'') = None"
    by simp
  note rt = group_type_round_trip [OF lo hi free, of "''Engineering team''"]
  from lo hi free rt show ?thesis by (intro conjI)
qed

section \<open>The group type in the groups listing\<close>

lemma groupModel_GroupType:
  "GroupsDataSourceGroupModel_GroupType (groupModel Sscanf_d grp) =
     (if Group_GroupType grp \<noteq> [] \<and> Sscanf_d (Group_GroupType grp) = (1, None)
      then Value 1 else Null)"
  by (simp add: groupModel_def Let_def split: prod.split)

text \<open>
  C9. In the groups listing, a group whose \<open>groupType\<close> text is not empty and is scanned
  as an integer (the scanner reports one item and no error) gets the group type 1, the count
  of items, whatever the integer is; a group whose text is empty or is not scanned so gets
  no group type (null). \<open>Read\<close>, when the listing succeeds, puts exactly these into the
  state, one per group found and in their order.
\<close>

theorem groups_listing_group_type:
  assumes "\<not> HasError (Response_Diagnostics resp)"
      and "ListGroups client
             (if \<not> IsNull (GroupsDataSourceModel_Filter data)
                 \<and> \<not> IsUnknown (GroupsDataSourceModel_Filter data)
              then ValueString (GroupsDataSourceModel_Filter data)
              else ''(objectClass=group)'') s = (Inr groups, s1)"
  shows "\<exists>out. GroupsDataSource_Read Sscanf_d client data resp s =
                 (resp\<lparr>Response_State := Some out\<rparr>, s1) \<and>
               map GroupsDataSourceGroupModel_GroupType (GroupsDataSourceModel_Groups out) =
                 map (\<lambda>grp. if Group_GroupType grp \<noteq> []
                                 \<and> Sscanf_d (Group_GroupType grp) = (1, None)
                              then Value 1 else Null) groups"
proof -
  let ?filterStr = "if \<not> IsNull (GroupsDataSourceModel_Filter data)
                 \<and> \<not> IsUnknown (GroupsDataSourceModel_Filter data)
              then ValueString (GroupsDataSourceModel_Filter data)
              else ''(objectClass=group)''"
  let ?out = "data\<lparr>GroupsDataSourceModel_ID := Value ''groups'',
                   GroupsDataSourceModel_Filter := Value ?filterStr,
                   GroupsDataSourceModel_Groups := map (groupModel Sscanf_d) groups\<rparr>"
  have "GroupsDataSource_Read Sscanf_d client data resp s =
          (resp\<lparr>Response_State := Some ?out\<rparr>, s1)"
    unfolding GroupsDataSource_Read_def Let_def
    by (simp only: assms if_False prod.case sum.case)
  moreover have "map GroupsDataSourceGroupModel_GroupType (GroupsDataSourceModel_Groups ?out) =
                 map (\<lambda>grp. if Group_GroupType grp \<noteq> []
                                 \<and> Sscanf_d (Group_GroupType grp) = (1, None)
                              then Value 1 else Null) groups"
    by (simp add: groupModel_GroupType comp_def)
  ultimately show ?thesis by blast
qed

theorem groups_listing_group_type_witness:
  "\<not> HasError (Response_Diagnostics (noResponse :: GroupsDataSourceModel Response)) \<and>
   (\<exists>groups.
      ListGroups dirClient ''(objectClass=group)'' twoGroups = (Inr groups, twoGroups) \<and>
      map Group_GroupType groups = [''-2147483646'', []] \<and>
      (\<exists>out. GroupsDataSource_Read scanDecimal dirClient noFilter noResponse twoGroups =
                (noResponse\<lparr>Response_State := Some out\<rparr>, twoGroups) \<and>
              map GroupsDataSourceGroupModel_GroupType (GroupsDataSourceModel_Groups out) =
                [Value 1, Null]))"
proof -
  let ?eng = "entryGroup \<lparr>Entry_DN = ''CN=eng,DC=x'',
                Entry_Attributes = [(''cn'', [''eng'']), (''groupType'', [''-2147483646''])]\<rparr>"
  let ?ops = "entryGroup \<lparr>Entry_DN = ''CN=ops,DC=x'', Entry_Attributes = [(''cn'', [''ops''])]\<rparr>"
  have ok: "\<not> HasError (Response_Diagnostics (noResponse :: GroupsDataSourceModel Response))"
    by (simp add: HasError_def noResponse_def)
  have lg: "ListGroups dirClient ''(objectClass=group)'' twoGroups = (Inr [?eng, ?ops], twoGroups)"
    by (simp add: ListGroups_def Client_Search_def dirClient_def dirConn_def dir_Search_def
          NewSearchRequest_def twoGroups_def isGroup_def underBase_def dirEntry_def
          groupAttributes_def)
  have flt: "(if \<not> IsNull (GroupsDataSourceModel_Filter noFilter)
                 \<and> \<not> IsUnknown (GroupsDataSourceModel_Filter noFilter)
              then ValueString (GroupsDataSourceModel_Filter noFilter)
              else ''(objectClass=group)'') = ''(objectClass=group)''"
    by (simp add: noFilter_def IsNull_def)
  have types: "map Group_GroupType [?eng, ?ops] = [''-2147483646'', []]"
    by (simp add: entryGroup_def GetAttributeValue_def GetAttributeValues_def)
  have p: "ParseInt ''-2147483646'' = Inr (- 2147483646)"
    using ParseInt_Sprintf_d [of "- 2147483646"]
    by (simp add: Sprintf_d_def formatBits.simps)
  have scan: "map (\<lambda>grp. if Group_GroupType grp \<noteq> []
                                 \<and> scanDecimal (Group_GroupType grp) = (1, None)
                              then Value (1::int) else Null) [?eng, ?ops] = [Value 1, Null]"
    using types p by (simp add: scanDecimal_def)
  note rd = groups_listing_group_type [of noResponse dirClient noFilter twoGroups
      "[?eng, ?ops]" twoGroups scanDecimal, OF ok, unfolded flt, OF lg, unfolded scan]
  from lg types rd have "\<exists>groups.
      ListGroups dirClient ''(objectClass=group)'' twoGroups = (Inr groups, twoGroups) \<and>
      map Group_GroupType groups = [''-2147483646'', []] \<and>
      (\<exists>out. GroupsDataSource_Read scanDecimal dirClient noFilter noResponse twoGroups =
                (noResponse\<lparr>Response_State := Some out\<rparr>, twoGroups) \<and>
              map GroupsDataSourceGroupModel_GroupType (GroupsDataSourceModel_Groups out) =
                [Value 1, Null])"
    by (intro exI [of _ "[?eng, ?ops]"] conjI)
  with ok show ?thesis by (rule conjI)
qed


end
